theory Spec2Isabelle
  imports Main "HOL-Library.Sublist"
begin

section \<open>JavaScript strings\<close>

text \<open>
  A JavaScript string is modelled by the bytes of its UTF-8 encoding.  The operations the
  program uses (concatenation, equality, \<^verbatim>\<open>startsWith\<close>, \<^verbatim>\<open>includes\<close>,
  \<^verbatim>\<open>slice(3)\<close> behind an ASCII prefix, \<^verbatim>\<open>replace\<close> of ASCII characters,
  \<^verbatim>\<open>trim\<close> and the three case-insensitive ASCII patterns) give the same result on the
  encoded bytes as on the UTF-16 code units.
\<close>

definition startsWith :: "string \<Rightarrow> string \<Rightarrow> bool" where
  "startsWith s p = (take (length p) s = p)"

fun str_includes :: "string \<Rightarrow> string \<Rightarrow> bool" where
  "str_includes [] p = (p = [])"
| "str_includes (c # s) p = (startsWith (c # s) p \<or> str_includes s p)"

definition byte :: "char \<Rightarrow> nat" where
  "byte c = of_char c"

definition to_lower :: "char \<Rightarrow> char" where
  "to_lower c = (if 65 \<le> byte c \<and> byte c \<le> 90 then char_of (byte c + 32) else c)"

text \<open>\<^verbatim>\<open>/pat/i.test(s)\<close> for a pattern \<open>pat\<close> of lower-case ASCII letters and spaces.\<close>

definition test_i :: "string \<Rightarrow> string \<Rightarrow> bool" where
  "test_i pat s = str_includes (map to_lower s) pat"

text \<open>
  The white space and line terminators that \<^verbatim>\<open>String.prototype.trim\<close> removes:
  U+0009..U+000D and U+0020 (one byte), U+00A0 (two bytes), U+1680, U+2000..U+200A, U+2028,
  U+2029, U+202F, U+205F, U+3000 and U+FEFF (three bytes).
\<close>

definition is_ws1 :: "nat \<Rightarrow> bool" where
  "is_ws1 a = ((9 \<le> a \<and> a \<le> 13) \<or> a = 32)"

definition is_ws2 :: "nat \<Rightarrow> nat \<Rightarrow> bool" where
  "is_ws2 a b = (a = 194 \<and> b = 160)"

definition is_ws3 :: "nat \<Rightarrow> nat \<Rightarrow> nat \<Rightarrow> bool" where
  "is_ws3 a b c =
     ((a = 225 \<and> b = 154 \<and> c = 128) \<or>
      (a = 226 \<and> b = 128 \<and> ((128 \<le> c \<and> c \<le> 138) \<or> c = 168 \<or> c = 169 \<or> c = 175)) \<or>
      (a = 226 \<and> b = 129 \<and> c = 159) \<or>
      (a = 227 \<and> b = 128 \<and> c = 128) \<or>
      (a = 239 \<and> b = 187 \<and> c = 191))"

text \<open>
  \<open>strip_ws rv s\<close> drops the white space at the head of \<open>s\<close>; with \<open>rv\<close> the string is
  read backwards, so the bytes of a character come last byte first.
\<close>

fun strip_ws :: "bool \<Rightarrow> string \<Rightarrow> string" where
  "strip_ws rv [] = []"
| "strip_ws rv [a] = (if is_ws1 (byte a) then [] else [a])"
| "strip_ws rv [a, b] =
     (if is_ws1 (byte a) then strip_ws rv [b]
      else if (if rv then is_ws2 (byte b) (byte a) else is_ws2 (byte a) (byte b)) then []
      else [a, b])"
| "strip_ws rv (a # b # c # s) =
     (if is_ws1 (byte a) then strip_ws rv (b # c # s)
      else if (if rv then is_ws2 (byte b) (byte a) else is_ws2 (byte a) (byte b))
        then strip_ws rv (c # s)
      else if (if rv then is_ws3 (byte c) (byte b) (byte a) else is_ws3 (byte a) (byte b) (byte c))
        then strip_ws rv s
      else a # b # c # s)"

definition trim :: "string \<Rightarrow> string" where
  "trim s = rev (strip_ws True (rev (strip_ws False s)))"

text \<open>\<^verbatim>\<open>slug.replace(/-/g, " ")\<close>.\<close>

definition hyphens_to_spaces :: "string \<Rightarrow> string" where
  "hyphens_to_spaces s = map (\<lambda>c. if c = CHR ''-'' then CHR '' '' else c) s"

text \<open>\<^verbatim>\<open>markdown.replace(/\n{3,}/g, "\n\n")\<close>: a run of three or more line feeds becomes two.\<close>

function collapse_blank_lines :: "string \<Rightarrow> string" where
  "collapse_blank_lines [] = []"
| "collapse_blank_lines (c # s) =
     (if c = CHR 0x0A
      then (let run = takeWhile (\<lambda>x. x = CHR 0x0A) (c # s);
                rest = dropWhile (\<lambda>x. x = CHR 0x0A) (c # s)
            in (if 3 \<le> length run then [CHR 0x0A, CHR 0x0A] else run) @ collapse_blank_lines rest)
      else c # collapse_blank_lines s)"
  by pat_completeness auto
termination
proof (relation "measure length")
  show "wf (measure length)" by simp
next
  fix c :: char and s x xa
  assume "c = CHR 0x0A" and "xa = dropWhile (\<lambda>x. x = CHR 0x0A) (c # s)"
  then have "length xa \<le> length s" by (simp add: length_dropWhile_le)
  then show "(xa, c # s) \<in> measure length" by simp
next
  fix c :: char and s
  show "(s, c # s) \<in> measure length" by simp
qed

text \<open>Decimal digits of a number, as a template literal prints an array length or index.\<close>

fun show_nat :: "nat \<Rightarrow> string" where
  "show_nat n = (if n < 10 then [char_of (48 + n)] else show_nat (n div 10) @ [char_of (48 + n mod 10)])"

text \<open>\<^verbatim>\<open>parts.join(sep)\<close>.\<close>

fun join :: "string \<Rightarrow> string list \<Rightarrow> string" where
  "join sep [] = []"
| "join sep [x] = x"
| "join sep (x # y # ys) = x @ sep @ join sep (y # ys)"

section \<open>Values read from JSON-LD\<close>

text \<open>
  The value \<^verbatim>\<open>JSON.parse\<close> returns is untyped in the program (\<^verbatim>\<open>any\<close>), so the model
  keeps every shape: \<open>JUndefined\<close> is what reading a missing property gives.  The
  program does two things with a number: it tests it in a condition and it prints it.  So a
  number is given by the string that \<^verbatim>\<open>String(n)\<close> returns (\<^verbatim>\<open>1e+21\<close> for
  \<^verbatim>\<open>1e21\<close>, \<^verbatim>\<open>0.5\<close>, \<^verbatim>\<open>Infinity\<close> for \<^verbatim>\<open>1e999\<close>); the two zeros, the only
  numbers of a JSON text that are falsy, both print as \<^verbatim>\<open>0\<close>.  An object is the list of
  its own properties with their values, each key once (of a key that the JSON text repeats,
  \<^verbatim>\<open>JSON.parse\<close> keeps the last value).
\<close>

datatype jsval =
    JUndefined
  | JNull
  | JBool bool
  | JNum string
  | JStr string
  | JArr "jsval list"
  | JObj "(string \<times> jsval) list"

text \<open>The condition of \<^verbatim>\<open>if (v)\<close>.\<close>

fun truthy :: "jsval \<Rightarrow> bool" where
  "truthy JUndefined = False"
| "truthy JNull = False"
| "truthy (JBool b) = b"
| "truthy (JNum s) = (s \<noteq> ''0'')"
| "truthy (JStr s) = (s \<noteq> [])"
| "truthy (JArr xs) = True"
| "truthy (JObj kvs) = True"

text \<open>
  \<^verbatim>\<open>v.k\<close> on a value that is neither \<^verbatim>\<open>null\<close> nor \<^verbatim>\<open>undefined\<close>, for the keys the
  program reads (\<^verbatim>\<open>headline\<close>, \<^verbatim>\<open>datePublished\<close>, \<^verbatim>\<open>description\<close>, \<^verbatim>\<open>image\<close>,
  \<^verbatim>\<open>url\<close>, \<^verbatim>\<open>author\<close>, \<^verbatim>\<open>name\<close>): none of them is a property of a string, number,
  boolean or array.
\<close>

fun get_prop :: "jsval \<Rightarrow> string \<Rightarrow> jsval" where
  "get_prop (JObj kvs) k = (case map_of kvs k of Some v \<Rightarrow> v | None \<Rightarrow> JUndefined)"
| "get_prop v k = JUndefined"

text \<open>\<^verbatim>\<open>v?.k\<close>.\<close>

definition opt_prop :: "jsval \<Rightarrow> string \<Rightarrow> jsval" where
  "opt_prop v k = (if v = JNull \<or> v = JUndefined then JUndefined else get_prop v k)"

text \<open>
  The string a template literal puts in for a value (\<^verbatim>\<open>ToString\<close>); \<open>None\<close> when the
  conversion throws a \<^verbatim>\<open>TypeError\<close>.  An object is converted by its \<^verbatim>\<open>toString\<close>
  method.  An object of a JSON text inherits the one that returns \<^verbatim>\<open>[object Object]\<close>,
  unless it has a property \<^verbatim>\<open>toString\<close> of its own: that is a JSON value, which cannot
  be called, the inherited \<^verbatim>\<open>valueOf\<close> returns the object itself, and the conversion
  throws.  An array is converted by \<^verbatim>\<open>join\<close>, which converts each element but
  \<^verbatim>\<open>null\<close> and \<^verbatim>\<open>undefined\<close>, for which it puts the empty string.
\<close>

fun js_string :: "jsval \<Rightarrow> string option"
and js_strings :: "jsval list \<Rightarrow> string list option" where
  "js_string JUndefined = Some ''undefined''"
| "js_string JNull = Some ''null''"
| "js_string (JBool b) = Some (if b then ''true'' else ''false'')"
| "js_string (JNum s) = Some s"
| "js_string (JStr s) = Some s"
| "js_string (JArr xs) = map_option (join '','') (js_strings xs)"
| "js_string (JObj kvs) =
     (if map_of kvs ''toString'' = None then Some ''[object Object]'' else None)"
| "js_strings [] = Some []"
| "js_strings (x # xs) =
     (case (if x = JNull \<or> x = JUndefined then Some [] else js_string x) of
        None \<Rightarrow> None
      | Some s \<Rightarrow> map_option ((#) s) (js_strings xs))"

text \<open>The message of that \<^verbatim>\<open>TypeError\<close>, as Node.js words it.\<close>

definition TYPE_ERROR :: string where
  "TYPE_ERROR = ''Cannot convert object to primitive value''"

text \<open>
  \<^verbatim>\<open>new Date(v)\<close> converts an object or an array to a primitive value first, with the
  methods \<^verbatim>\<open>valueOf\<close> and \<^verbatim>\<open>toString\<close>.  For a value of a JSON text that throws
  exactly when the conversion to a string throws.
\<close>

definition date_throws :: "jsval \<Rightarrow> bool" where
  "date_throws v = (js_string v = None)"

section \<open>The parsed document\<close>

text \<open>
  The tree \<^verbatim>\<open>parse(html)\<close> of node-html-parser returns: elements with their lower-case
  tag name, their attributes and their child nodes, and text nodes.  The root that
  \<^verbatim>\<open>parse\<close> returns is an element without a tag name.
\<close>

datatype node =
    Element string "(string \<times> string) list" "node list"
  | TextNode string

fun childNodes :: "node \<Rightarrow> node list" where
  "childNodes (Element t a cs) = cs"
| "childNodes (TextNode s) = []"

text \<open>
  \<^verbatim>\<open>el.text\<close>: the text of all the descendants, concatenated; the parser gives a
  \<^verbatim>\<open>br\<close> element the text of a line feed.
\<close>

fun text_of :: "node \<Rightarrow> string" where
  "text_of (TextNode s) = s"
| "text_of (Element t a cs) = (if t = ''br'' then [CHR 0x0A] else concat (map text_of cs))"

text \<open>\<^verbatim>\<open>el.getAttribute(k)\<close>; \<open>None\<close> is \<^verbatim>\<open>undefined\<close>.\<close>

fun getAttribute :: "node \<Rightarrow> string \<Rightarrow> string option" where
  "getAttribute (Element t a cs) k = map_of a k"
| "getAttribute (TextNode s) k = None"

text \<open>The tokens of a \<^verbatim>\<open>class\<close> attribute, separated by ASCII white space.\<close>

fun class_tokens :: "string \<Rightarrow> string \<Rightarrow> string list" where
  "class_tokens cur [] = (if cur = [] then [] else [cur])"
| "class_tokens cur (c # s) =
     (if byte c = 32 \<or> byte c = 9 \<or> byte c = 10 \<or> byte c = 12 \<or> byte c = 13
      then (if cur = [] then [] else [cur]) @ class_tokens [] s
      else class_tokens (cur @ [c]) s)"

text \<open>
  The selectors the program passes to \<^verbatim>\<open>querySelector\<close> and \<^verbatim>\<open>querySelectorAll\<close>:
  a comma-separated list of compound selectors, each a conjunction of simple ones.
  \<open>Tag ''p''\<close> is \<^verbatim>\<open>p\<close>, \<open>HasId i\<close> is \<^verbatim>\<open>#i\<close>, \<open>HasClass c\<close> is \<^verbatim>\<open>.c\<close>,
  \<open>HasAttr k\<close> is \<^verbatim>\<open>[k]\<close>, \<open>AttrEq k v\<close> is \<^verbatim>\<open>[k="v"]\<close>, \<open>AttrPrefix k v\<close> is
  \<^verbatim>\<open>[k^="v"]\<close> and \<open>AttrContains k v\<close> is \<^verbatim>\<open>[k*="v"]\<close>.
\<close>

datatype simple =
    Tag string
  | HasId string
  | HasClass string
  | HasAttr string
  | AttrEq string string
  | AttrPrefix string string
  | AttrContains string string

type_synonym selector = "simple list list"

fun simple_ok :: "simple \<Rightarrow> node \<Rightarrow> bool" where
  "simple_ok s (TextNode x) = False"
| "simple_ok (Tag t) (Element n a cs) = (n = t)"
| "simple_ok (HasId i) (Element n a cs) = (map_of a ''id'' = Some i)"
| "simple_ok (HasClass c) (Element n a cs) =
     (case map_of a ''class'' of None \<Rightarrow> False | Some v \<Rightarrow> List.member (class_tokens [] v) c)"
| "simple_ok (HasAttr k) (Element n a cs) = (map_of a k \<noteq> None)"
| "simple_ok (AttrEq k v) (Element n a cs) = (map_of a k = Some v)"
| "simple_ok (AttrPrefix k v) (Element n a cs) =
     (case map_of a k of None \<Rightarrow> False | Some x \<Rightarrow> startsWith x v)"
| "simple_ok (AttrContains k v) (Element n a cs) =
     (case map_of a k of None \<Rightarrow> False | Some x \<Rightarrow> str_includes x v)"

text \<open>Only elements match a selector.\<close>

fun matches :: "selector \<Rightarrow> node \<Rightarrow> bool" where
  "matches sel (TextNode x) = False"
| "matches sel (Element n a cs) = list_ex (\<lambda>c. list_all (\<lambda>s. simple_ok s (Element n a cs)) c) sel"

text \<open>The elements below a node, in document order (the node itself is not among them).\<close>

fun subtree :: "node \<Rightarrow> node list" where
  "subtree (TextNode s) = []"
| "subtree (Element t a cs) = Element t a cs # concat (map subtree cs)"

definition descendants :: "node \<Rightarrow> node list" where
  "descendants n = concat (map subtree (childNodes n))"

definition querySelectorAll :: "node \<Rightarrow> selector \<Rightarrow> node list" where
  "querySelectorAll n sel = filter (matches sel) (descendants n)"

definition querySelector :: "node \<Rightarrow> selector \<Rightarrow> node option" where
  "querySelector n sel = (case querySelectorAll n sel of [] \<Rightarrow> None | e # es \<Rightarrow> Some e)"

subsection \<open>Removing elements\<close>

text \<open>
  \<^verbatim>\<open>el.remove()\<close> changes the tree in place, so the elements of the tree that a loop
  started with need names: an element is named by its path, the child indices that lead to
  it from the element the loop works on.  The state of a loop is the set \<open>R\<close> of the paths
  of the elements it has removed.

  \<open>cut R p el\<close> is what the element at \<open>p\<close> holds at the moment: \<open>el\<close>, as the tree had
  it when the loop started, without the elements below it that were removed.
\<close>

fun cut :: "nat list set \<Rightarrow> nat list \<Rightarrow> node \<Rightarrow> node"
and cut_from :: "nat list set \<Rightarrow> nat list \<Rightarrow> nat \<Rightarrow> node list \<Rightarrow> node list" where
  "cut R p (TextNode s) = TextNode s"
| "cut R p (Element t a cs) = Element t a (cut_from R p 0 cs)"
| "cut_from R p i [] = []"
| "cut_from R p i (c # cs) =
     (if p @ [i] \<in> R then cut_from R p (Suc i) cs
      else cut R (p @ [i]) c # cut_from R p (Suc i) cs)"

text \<open>The paths of the elements of a tree in document order; \<open>p\<close> is the path of the tree.\<close>

fun elem_paths :: "nat list \<Rightarrow> node \<Rightarrow> nat list list"
and elem_paths_from :: "nat list \<Rightarrow> nat \<Rightarrow> node list \<Rightarrow> nat list list" where
  "elem_paths p (TextNode s) = []"
| "elem_paths p (Element t a cs) = p # elem_paths_from p 0 cs"
| "elem_paths_from p i [] = []"
| "elem_paths_from p i (c # cs) = elem_paths (p @ [i]) c @ elem_paths_from p (Suc i) cs"

fun node_at :: "node \<Rightarrow> nat list \<Rightarrow> node option" where
  "node_at n [] = Some n"
| "node_at (TextNode s) (i # p) = None"
| "node_at (Element t a cs) (i # p) = (if i < length cs then node_at (cs ! i) p else None)"

text \<open>
  \<^verbatim>\<open>for (const el of matches) if (test(el)) el.remove()\<close> over the paths of the matches:
  \<^verbatim>\<open>test\<close> reads the element as it is at that moment, and \<^verbatim>\<open>remove\<close> detaches it from
  its parent (also inside a part of the tree that is detached already).
\<close>

fun remove_loop ::
  "(node \<Rightarrow> bool) \<Rightarrow> node \<Rightarrow> nat list set \<Rightarrow> nat list list \<Rightarrow> nat list set" where
  "remove_loop test root R [] = R"
| "remove_loop test root R (p # ps) =
     remove_loop test root
       (case node_at root p of
          Some el \<Rightarrow> if test (cut R p el) then insert p R else R
        | None \<Rightarrow> R) ps"

definition selected :: "(node \<Rightarrow> bool) \<Rightarrow> node \<Rightarrow> nat list \<Rightarrow> bool" where
  "selected sel root p = (case node_at root p of Some el \<Rightarrow> sel el | None \<Rightarrow> False)"

text \<open>
  \<^verbatim>\<open>for (const el of contentEl.querySelectorAll(sel)) if (test(el)) el.remove()\<close>: the
  matches are the elements below \<^verbatim>\<open>contentEl\<close> that \<open>sel\<close> holds of, listed once, in
  document order, before the loop starts; the result is \<^verbatim>\<open>contentEl\<close> after the loop.
\<close>

definition remove_matches :: "(node \<Rightarrow> bool) \<Rightarrow> (node \<Rightarrow> bool) \<Rightarrow> node \<Rightarrow> node" where
  "remove_matches sel test contentEl =
     cut (remove_loop test contentEl {}
            (filter (selected sel contentEl) (elem_paths_from [] 0 (childNodes contentEl))))
       [] contentEl"

section \<open>Types and constants of the program\<close>

text \<open>
  \<^verbatim>\<open>interface PostListing\<close>.  The interface declares \<^verbatim>\<open>title\<close> a string, and the title
  of a listing is one; the object an extractor returns holds in \<^verbatim>\<open>title\<close> whatever the
  JSON-LD gave as the headline.  The type of the title is therefore a parameter: \<open>string\<close>
  in a listing, \<open>jsval\<close> in a content.
\<close>

record 't PostListing =
  title :: 't
  date :: string
  url :: string
  slug :: string

text \<open>
  \<^verbatim>\<open>interface PostContent extends PostListing\<close>.  The fields \<^verbatim>\<open>title\<close>, \<^verbatim>\<open>author\<close>,
  \<^verbatim>\<open>subtitle\<close> and \<^verbatim>\<open>featured_image\<close> are declared as strings and hold the values of
  the JSON-LD as they are; the date, the markdown and the links are strings in every run.
  An external link \<^verbatim>\<open>{ text, url }\<close> is the pair of its text and its URL;
  \<^verbatim>\<open>featured_image\<close> is optional.
\<close>

record PostContent = "jsval PostListing" +
  author :: jsval
  subtitle :: jsval
  content_markdown :: string
  external_links :: "(string \<times> string) list"
  featured_image :: "jsval option"

definition BASE_URL :: string where
  "BASE_URL = ''https://www.superhuman.ai''"


definition CODE_AUTHOR :: string where
  "CODE_AUTHOR = ''The Code team''"

definition SPONSOR_PATTERNS :: "string list" where
  "SPONSOR_PATTERNS = [''presented by'', ''sponsored by'', ''advertisement'']"

text \<open>\<^verbatim>\<open>SPONSOR_PATTERNS.some((p) => p.test(s))\<close>; each pattern carries the flag \<^verbatim>\<open>i\<close>.\<close>

definition sponsor_text :: "string \<Rightarrow> bool" where
  "sponsor_text s = list_ex (\<lambda>p. test_i p s) SPONSOR_PATTERNS"

text \<open>
  What the program takes from outside, for the length of one tool call (a URL gets the same
  answer each time it is fetched during the call):
  \<^item> \<open>fetchHtml\<close>: the network, \<open>Inl\<close> the message of the error \<^verbatim>\<open>fetchHtml\<close> throws
    (a response that is not ok, or a failed request), \<open>Inr\<close> the markup;
  \<^item> \<open>parse\<close>: the parser of node-html-parser;
  \<^item> \<open>JSON_parse\<close>: \<open>None\<close> when \<^verbatim>\<open>JSON.parse\<close> throws;
  \<^item> \<open>long_date\<close>: \<^verbatim>\<open>new Date(v).toLocaleDateString("en-US", {year, month, day})\<close>, for
    a value \<open>v\<close> on which \<^verbatim>\<open>new Date\<close> does not throw (see \<open>date_throws\<close>);
  \<^item> \<open>turndown\<close>: \<^verbatim>\<open>turndown.turndown(el.innerHTML)\<close>, as a function of the element;
  \<^item> \<open>fetchedAt\<close>: the long form of the current date.
\<close>

record env =
  fetchHtml :: "string \<Rightarrow> string + string"
  parse :: "string \<Rightarrow> node"
  JSON_parse :: "string \<Rightarrow> jsval option"
  long_date :: "jsval \<Rightarrow> string"
  turndown :: "node \<Rightarrow> string"
  fetchedAt :: string

section \<open>Step 1: the post listing\<close>

text \<open>
  Every element below the root in document order, each with \<^verbatim>\<open>el.parentNode?.parentNode\<close>
  (\<open>None\<close> when the parent is the root, whose own parent is \<^verbatim>\<open>null\<close>).
\<close>

fun with_card :: "node option \<Rightarrow> node option \<Rightarrow> node \<Rightarrow> (node \<times> node option) list" where
  "with_card gp p (TextNode s) = []"
| "with_card gp p (Element t a cs) =
     (Element t a cs, gp) # concat (map (with_card p (Some (Element t a cs))) cs)"

text \<open>\<^verbatim>\<open>root.querySelectorAll('a[href^="/p/"]')\<close>, each link with its card.\<close>

definition post_links :: "node \<Rightarrow> (node \<times> node option) list" where
  "post_links root =
     filter (\<lambda>lc. matches [[Tag ''a'', AttrPrefix ''href'' ''/p/'']] (fst lc))
       (concat (map (with_card None (Some root)) (childNodes root)))"

text \<open>
  The loop over the links: a link whose \<^verbatim>\<open>href\<close> does not start with \<^verbatim>\<open>/p/\<close> or was seen
  is skipped; \<open>mk\<close> builds the listing of a link that is kept.
\<close>

fun listing_loop ::
  "(string \<Rightarrow> node \<Rightarrow> node option \<Rightarrow> string PostListing) \<Rightarrow> string set \<Rightarrow> (node \<times> node option) list
     \<Rightarrow> string PostListing list" where
  "listing_loop mk seen [] = []"
| "listing_loop mk seen ((link, cardEl) # rest) =
     (let href = (case getAttribute link ''href'' of Some h \<Rightarrow> h | None \<Rightarrow> [])
      in if \<not> startsWith href ''/p/'' \<or> href \<in> seen then listing_loop mk seen rest
         else mk href link cardEl # listing_loop mk (insert href seen) rest)"

text \<open>
  Superhuman: the title is the text of the card's \<^verbatim>\<open>h2\<close>, else the \<^verbatim>\<open>alt\<close> of the card's
  first \<^verbatim>\<open>img\<close>, else the slug with spaces; the date is the text of the card's first
  \<^verbatim>\<open>span\<close>.
\<close>

definition superhuman_listing :: "string \<Rightarrow> node \<Rightarrow> node option \<Rightarrow> string PostListing" where
  "superhuman_listing href link cardEl =
     (let slug = drop 3 href;
          postUrl = BASE_URL @ href;
          title =
            (case Option.bind cardEl (\<lambda>c. querySelector c [[Tag ''h2'']]) of
               Some h \<Rightarrow> trim (text_of h)
             | None \<Rightarrow>
                (case Option.bind cardEl (\<lambda>c. Option.bind (querySelector c [[Tag ''img'']])
                        (\<lambda>i. getAttribute i ''alt'')) of
                   Some alt \<Rightarrow> trim alt
                 | None \<Rightarrow> hyphens_to_spaces slug));
          rawDate =
            (case Option.bind cardEl (\<lambda>c. querySelector c [[Tag ''span'']]) of
               Some sp \<Rightarrow> trim (text_of sp)
             | None \<Rightarrow> [])
      in \<lparr>title = title, date = rawDate, url = postUrl, slug = slug\<rparr>)"

definition page_url :: "nat \<Rightarrow> string" where
  "page_url page = (if page = 1 then BASE_URL else BASE_URL @ ''/archive?page='' @ show_nat page)"

definition scrapePostListings :: "env \<Rightarrow> nat \<Rightarrow> string + string PostListing list" where
  "scrapePostListings E page =
     (case fetchHtml E (page_url page) of
        Inl err \<Rightarrow> Inl err
      | Inr html \<Rightarrow> Inr (listing_loop superhuman_listing {} (post_links (parse E html))))"





section \<open>Step 2: the content of a post\<close>

text \<open>
  The five variables that the metadata steps assign.  They hold whatever the JSON-LD gives
  (\<^verbatim>\<open>data\<close> is untyped); the date is a string throughout.
\<close>

record metadata =
  m_title :: jsval
  m_datePublished :: string
  m_description :: jsval
  m_featuredImage :: jsval
  m_author :: jsval

definition ld_scripts :: "node \<Rightarrow> node list" where
  "ld_scripts root = querySelectorAll root [[Tag ''script'', AttrEq ''type'' ''application/ld+json'']]"

text \<open>
  The body of the loop over the JSON-LD scripts in \<^verbatim>\<open>scrapePostContent\<close>.  The
  \<^verbatim>\<open>try\<close> holds the whole body and the \<^verbatim>\<open>catch\<close> is empty, so a throw ends the body
  with the assignments made so far:
  \<^item> when \<^verbatim>\<open>JSON.parse\<close> throws, or returns \<^verbatim>\<open>null\<close> (reading \<^verbatim>\<open>data.headline\<close>
    then throws), nothing has been assigned;
  \<^item> when \<^verbatim>\<open>new Date(data.datePublished)\<close> throws, the headline has been assigned, and
    the date, the description, the image and the author of this script are not.
\<close>

definition ld_step :: "env \<Rightarrow> metadata \<Rightarrow> node \<Rightarrow> metadata" where
  "ld_step E m script =
     (case JSON_parse E (text_of script) of
        None \<Rightarrow> m
      | Some data \<Rightarrow>
          if data = JNull \<or> data = JUndefined then m
          else
            (let m1 = (if truthy (get_prop data ''headline'')
                       then m\<lparr>m_title := get_prop data ''headline''\<rparr> else m)
             in if truthy (get_prop data ''datePublished'') \<and>
                   date_throws (get_prop data ''datePublished'')
                then m1
                else
                  (let m2 = (if truthy (get_prop data ''datePublished'')
                             then m1\<lparr>m_datePublished := long_date E (get_prop data ''datePublished'')\<rparr>
                             else m1);
                       m3 = (if truthy (get_prop data ''description'')
                             then m2\<lparr>m_description := get_prop data ''description''\<rparr> else m2);
                       m4 = (if truthy (opt_prop (get_prop data ''image'') ''url'')
                             then m3\<lparr>m_featuredImage := opt_prop (get_prop data ''image'') ''url''\<rparr>
                             else m3);
                       m5 = (if truthy (opt_prop (get_prop data ''author'') ''name'')
                             then m4\<lparr>m_author := opt_prop (get_prop data ''author'') ''name''\<rparr>
                             else m4)
                   in m5)))"

text \<open>The same loop body in \<^verbatim>\<open>scrapeCodePostContent\<close>: \<^verbatim>\<open>author\<close> is a constant there.\<close>

definition ld_step_code :: "env \<Rightarrow> metadata \<Rightarrow> node \<Rightarrow> metadata" where
  "ld_step_code E m script =
     (case JSON_parse E (text_of script) of
        None \<Rightarrow> m
      | Some data \<Rightarrow>
          if data = JNull \<or> data = JUndefined then m
          else
            (let m1 = (if truthy (get_prop data ''headline'')
                       then m\<lparr>m_title := get_prop data ''headline''\<rparr> else m)
             in if truthy (get_prop data ''datePublished'') \<and>
                   date_throws (get_prop data ''datePublished'')
                then m1
                else
                  (let m2 = (if truthy (get_prop data ''datePublished'')
                             then m1\<lparr>m_datePublished := long_date E (get_prop data ''datePublished'')\<rparr>
                             else m1);
                       m3 = (if truthy (get_prop data ''description'')
                             then m2\<lparr>m_description := get_prop data ''description''\<rparr> else m2);
                       m4 = (if truthy (opt_prop (get_prop data ''image'') ''url'')
                             then m3\<lparr>m_featuredImage := opt_prop (get_prop data ''image'') ''url''\<rparr>
                             else m3)
                   in m4)))"

text \<open>
  \<^verbatim>\<open>root.querySelector('meta[property="og:..."]')?.getAttribute("content")\<close>.
\<close>

definition og_content :: "node \<Rightarrow> string \<Rightarrow> string option" where
  "og_content root name =
     Option.bind (querySelector root [[Tag ''meta'', AttrEq ''property'' name]])
       (\<lambda>e. getAttribute e ''content'')"

text \<open>The fallbacks to the Open Graph tags, the same in both extractors.\<close>

definition og_fallback :: "string PostListing \<Rightarrow> node \<Rightarrow> metadata \<Rightarrow> metadata" where
  "og_fallback listing root m =
     (let m1 = (if \<not> truthy (m_title m) \<or> m_title m = JStr (title listing)
                then m\<lparr>m_title :=
                  (case og_content root ''og:title'' of
                     Some c \<Rightarrow> JStr c
                   | None \<Rightarrow>
                      (case querySelector root [[Tag ''h1'']] of
                         Some h \<Rightarrow> JStr (trim (text_of h))
                       | None \<Rightarrow> m_title m))\<rparr>
                else m);
          m2 = (if \<not> truthy (m_description m1)
                then m1\<lparr>m_description :=
                  JStr (case og_content root ''og:description'' of Some c \<Rightarrow> c | None \<Rightarrow> [])\<rparr>
                else m1);
          m3 = (if \<not> truthy (m_featuredImage m2)
                then m2\<lparr>m_featuredImage :=
                  JStr (case og_content root ''og:image'' of Some c \<Rightarrow> c | None \<Rightarrow> [])\<rparr>
                else m2)
      in m3)"

definition superhuman_metadata :: "env \<Rightarrow> string PostListing \<Rightarrow> node \<Rightarrow> metadata" where
  "superhuman_metadata E listing root =
     og_fallback listing root
       (foldl (ld_step E)
          \<lparr>m_title = JStr (title listing), m_datePublished = date listing,
           m_description = JStr [], m_featuredImage = JStr [], m_author = JStr ''Zain Kahn''\<rparr>
          (ld_scripts root))"

definition code_metadata :: "env \<Rightarrow> string PostListing \<Rightarrow> node \<Rightarrow> metadata" where
  "code_metadata E listing root =
     og_fallback listing root
       (foldl (ld_step_code E)
          \<lparr>m_title = JStr (title listing), m_datePublished = date listing,
           m_description = JStr [], m_featuredImage = JStr [], m_author = JStr CODE_AUTHOR\<rparr>
          (ld_scripts root))"

text \<open>The content element: the first of four selectors that matches, else the root.\<close>

definition content_element :: "node \<Rightarrow> node" where
  "content_element root =
     (case querySelector root [[HasId ''content-blocks'']] of
        Some e \<Rightarrow> e
      | None \<Rightarrow>
         (case querySelector root [[HasClass ''rendered-post'']] of
            Some e \<Rightarrow> e
          | None \<Rightarrow>
             (case querySelector root [[Tag ''main'']] of
                Some e \<Rightarrow> e
              | None \<Rightarrow>
                 (case querySelector root [[Tag ''body'']] of
                    Some e \<Rightarrow> e
                  | None \<Rightarrow> root))))"

definition NOISE_SELECTORS :: "selector list" where
  "NOISE_SELECTORS =
     [[[Tag ''script'']], [[Tag ''style'']], [[Tag ''noscript'']], [[Tag ''nav'']],
      [[Tag ''header'']], [[Tag ''footer'']], [[Tag ''form'']], [[Tag ''button'']],
      [[AttrContains ''class'' ''subscribe'']], [[AttrContains ''class'' ''share'']],
      [[AttrContains ''class'' ''follow'']], [[AttrContains ''class'' ''feedback'']],
      [[AttrContains ''class'' ''poll'']], [[HasClass ''advertisement'']]]"

definition CODE_NOISE_SELECTORS :: "selector list" where
  "CODE_NOISE_SELECTORS =
     [[[Tag ''script'']], [[Tag ''style'']], [[Tag ''noscript'']], [[Tag ''nav'']],
      [[Tag ''header'']], [[Tag ''footer'']], [[Tag ''form'']], [[Tag ''button'']],
      [[AttrContains ''class'' ''subscribe'']], [[AttrContains ''class'' ''feedback'']],
      [[HasClass ''advertisement'']]]"

text \<open>
  \<^verbatim>\<open>for (const sel of [...]) for (const el of contentEl.querySelectorAll(sel)) el.remove()\<close>:
  one selector after the other.
\<close>

definition strip_noise :: "selector list \<Rightarrow> node \<Rightarrow> node" where
  "strip_noise sels el = fold (\<lambda>sel e. remove_matches (matches sel) (\<lambda>x. True) e) sels el"

text \<open>
  The sponsor loop: Superhuman tests \<^verbatim>\<open>h1,h2,h3,h4,p,div\<close>, The Code
  \<^verbatim>\<open>h1,h2,h3,h4,h5,p\<close>.
\<close>

definition SPONSOR_TAGS :: selector where
  "SPONSOR_TAGS = [[Tag ''h1''], [Tag ''h2''], [Tag ''h3''], [Tag ''h4''], [Tag ''p''], [Tag ''div'']]"

definition CODE_SPONSOR_TAGS :: selector where
  "CODE_SPONSOR_TAGS = [[Tag ''h1''], [Tag ''h2''], [Tag ''h3''], [Tag ''h4''], [Tag ''h5''], [Tag ''p'']]"

definition strip_sponsors :: "selector \<Rightarrow> node \<Rightarrow> node" where
  "strip_sponsors sel el = remove_matches (matches sel) (\<lambda>e. sponsor_text (text_of e)) el"

definition superhuman_clean :: "node \<Rightarrow> node" where
  "superhuman_clean root = strip_sponsors SPONSOR_TAGS (strip_noise NOISE_SELECTORS (content_element root))"

definition code_clean :: "node \<Rightarrow> node" where
  "code_clean root =
     strip_sponsors CODE_SPONSOR_TAGS (strip_noise CODE_NOISE_SELECTORS (content_element root))"

text \<open>
  The condition under which the link loop keeps an anchor, but for the test of the seen
  set; \<open>own\<close> is \<^verbatim>\<open>superhuman.ai\<close> or \<^verbatim>\<open>codenewsletter.ai\<close>.
\<close>

definition link_href :: "node \<Rightarrow> string" where
  "link_href a = (case getAttribute a ''href'' of Some h \<Rightarrow> h | None \<Rightarrow> [])"

definition link_text :: "node \<Rightarrow> string" where
  "link_text a = trim (text_of a)"

definition qualifies :: "string \<Rightarrow> node \<Rightarrow> bool" where
  "qualifies own a =
     (link_href a \<noteq> [] \<and>
      \<not> startsWith (link_href a) ''#'' \<and>
      \<not> str_includes (link_href a) own \<and>
      \<not> str_includes (link_href a) ''beehiiv.com'' \<and>
      \<not> str_includes (link_href a) ''twitter.com/intent'' \<and>
      \<not> str_includes (link_href a) ''facebook.com/sharer'' \<and>
      \<not> str_includes (link_href a) ''linkedin.com/sharing'' \<and>
      link_text a \<noteq> [])"

fun link_loop :: "string \<Rightarrow> string set \<Rightarrow> node list \<Rightarrow> (string \<times> string) list" where
  "link_loop own seenLinks [] = []"
| "link_loop own seenLinks (a # rest) =
     (if qualifies own a \<and> link_href a \<notin> seenLinks
      then (link_text a, link_href a) # link_loop own (insert (link_href a) seenLinks) rest
      else link_loop own seenLinks rest)"

definition collect_links :: "string \<Rightarrow> node \<Rightarrow> (string \<times> string) list" where
  "collect_links own contentEl = link_loop own {} (querySelectorAll contentEl [[Tag ''a'', HasAttr ''href'']])"

text \<open>
  The object the extractor returns.  The values of the metadata variables go into it as
  they are; \<^verbatim>\<open>featuredImage || undefined\<close> leaves the field out for a falsy value.
\<close>

definition make_content ::
  "env \<Rightarrow> string PostListing \<Rightarrow> metadata \<Rightarrow> string \<Rightarrow> node \<Rightarrow> PostContent" where
  "make_content E listing m own contentEl =
     \<lparr>title = m_title m, date = m_datePublished m, url = url listing,
      slug = slug listing, author = m_author m,
      subtitle = m_description m,
      content_markdown = trim (collapse_blank_lines (turndown E contentEl)),
      external_links = collect_links own contentEl,
      featured_image = (if truthy (m_featuredImage m) then Some (m_featuredImage m) else None)\<rparr>"

definition scrapePostContent :: "env \<Rightarrow> string PostListing \<Rightarrow> string + PostContent" where
  "scrapePostContent E listing =
     (case fetchHtml E (url listing) of
        Inl err \<Rightarrow> Inl err
      | Inr html \<Rightarrow>
          (let root = parse E html
           in Inr (make_content E listing (superhuman_metadata E listing root)
                     ''superhuman.ai'' (superhuman_clean root))))"

definition scrapeCodePostContent :: "env \<Rightarrow> string PostListing \<Rightarrow> string + PostContent" where
  "scrapeCodePostContent E listing =
     (case fetchHtml E (url listing) of
        Inl err \<Rightarrow> Inl err
      | Inr html \<Rightarrow>
          (let root = parse E html
           in Inr (make_content E listing (code_metadata E listing root)
                     ''codenewsletter.ai'' (code_clean root))))"

section \<open>The digest\<close>

text \<open>The divider: two line feeds, eighty box-drawing dashes (U+2500), two line feeds.\<close>

definition divider :: string where
  "divider = [CHR 0x0A, CHR 0x0A] @ concat (replicate 80 [CHR 0xE2, CHR 0x94, CHR 0x80])
       @ [CHR 0x0A, CHR 0x0A]"

text \<open>The header; \<open>name\<close> is the newsletter's name, followed in the source by a dash U+2014.\<close>

definition digest_header :: "string \<Rightarrow> string \<Rightarrow> nat \<Rightarrow> string" where
  "digest_header name compiled n =
     join [CHR 0x0A]
       [''# '' @ name @ '' '' @ [CHR 0xE2, CHR 0x80, CHR 0x94] @ '' '' @ show_nat n @ '' Most Recent Posts'',
        ''Compiled: '' @ compiled,
        [],
        ''Full content of each post is included below. Use this to produce a weekly digest'',
        ''with combined top stories, must-read links, and a reference back to each source URL.'']"

text \<open>
  The optional lines of a section.  \<^verbatim>\<open>post.subtitle ? `**Summary:** ${post.subtitle}` : ""\<close>
  and the like for the image: the condition is asked of the value, the template literal
  converts it, and \<open>None\<close> is the \<^verbatim>\<open>TypeError\<close> of the conversion.
\<close>

definition summary_line :: "jsval \<Rightarrow> string option" where
  "summary_line v =
     (if truthy v then map_option (\<lambda>s. ''**Summary:** '' @ s) (js_string v) else Some [])"

definition image_line :: "jsval option \<Rightarrow> string option" where
  "image_line img =
     (case img of
        None \<Rightarrow> Some []
      | Some v \<Rightarrow>
          if truthy v
          then map_option (\<lambda>s. [CHR 0x0A] @ ''![Featured Image]('' @ s @ '')'' @ [CHR 0x0A])
                 (js_string v)
          else Some [])"

text \<open>\<^verbatim>\<open>[...].filter(Boolean).join("\n")\<close> on the five lines of the metadata.\<close>

definition meta_lines :: "string list \<Rightarrow> string" where
  "meta_lines ls = join [CHR 0x0A] (filter (\<lambda>l. l \<noteq> []) ls)"

definition links_block :: "(string \<times> string) list \<Rightarrow> string" where
  "links_block ls =
     (if length ls > 0
      then [CHR 0x0A, CHR 0x0A] @ ''**Links referenced in this post:**'' @ [CHR 0x0A] @
           join [CHR 0x0A] (map (\<lambda>l. ''- ['' @ fst l @ '']('' @ snd l @ '')'') ls)
      else [])"

text \<open>
  The section of the post at index \<open>i\<close> of \<open>n\<close> posts; \<open>None\<close> when one of its template
  literals throws.  The literals are evaluated in the order of the source: title, author,
  subtitle, image.
\<close>

definition digest_section :: "nat \<Rightarrow> nat \<Rightarrow> PostContent \<Rightarrow> string option" where
  "digest_section n i post =
     (case js_string (title post) of
        None \<Rightarrow> None
      | Some title_s \<Rightarrow>
     (case js_string (author post) of
        None \<Rightarrow> None
      | Some author_s \<Rightarrow>
     (case summary_line (subtitle post) of
        None \<Rightarrow> None
      | Some summary \<Rightarrow>
     (case image_line (featured_image post) of
        None \<Rightarrow> None
      | Some picture \<Rightarrow>
          Some (meta_lines
                  [''## [Post '' @ show_nat (i + 1) @ ''/'' @ show_nat n @ ''] '' @ title_s,
                   ''**Date:** '' @ date post @ ''  |  **Author:** '' @ author_s,
                   ''**Source:** <'' @ url post @ ''>'',
                   summary,
                   picture]
                @ [CHR 0x0A, CHR 0x0A] @ content_markdown post
                @ links_block (external_links post))))))"

text \<open>
  \<^verbatim>\<open>posts.map((post, i) => ...)\<close>: the sections of all the posts, or \<open>None\<close> when the
  section of one of them throws.
\<close>

definition digest_sections :: "PostContent list \<Rightarrow> string list option" where
  "digest_sections posts =
     those (map (\<lambda>ip. digest_section (length posts) (fst ip) (snd ip)) (enumerate 0 posts))"

text \<open>The document, or \<open>Inl\<close> the message of the error the formatter throws.\<close>

definition format_with :: "string \<Rightarrow> string \<Rightarrow> PostContent list \<Rightarrow> string + string" where
  "format_with name compiled posts =
     (case digest_sections posts of
        None \<Rightarrow> Inl TYPE_ERROR
      | Some sections \<Rightarrow>
          Inr (digest_header name compiled (length posts) @ divider @ join divider sections))"

text \<open>The two formatters; the first argument is the current date in its long form.\<close>

definition formatDigest :: "string \<Rightarrow> PostContent list \<Rightarrow> string + string" where
  "formatDigest compiled posts = format_with ''Superhuman AI Newsletter'' compiled posts"

definition formatCodeDigest :: "string \<Rightarrow> PostContent list \<Rightarrow> string + string" where
  "formatCodeDigest compiled posts = format_with ''The Code Newsletter'' compiled posts"

section \<open>The two tools\<close>






section \<open>Example pages\<close>














text \<open>
  A post page with three JSON-LD scripts and an \<^verbatim>\<open>og:title\<close>.  The script texts stand
  for JSON documents, which \<open>JSON_parse\<close> of \<open>meta_env\<close> maps to their values:
  \<^item> \<open>ld-a\<close> for \<^verbatim>\<open>{"headline": "First", "datePublished": "2026-02-21", "description":
    "About A", "image": {"url": "https://img.example/a.png"}, "author": {"name": "Alice"}}\<close>;
  \<^item> \<open>ld-broken\<close> for a text that is not JSON;
  \<^item> \<open>ld-b\<close> for \<^verbatim>\<open>{"headline": "Second"}\<close>;
  \<^item> \<open>ld-cut\<close> for \<^verbatim>\<open>{"headline": "Cut", "datePublished": {"toString": 1},
    "description": "About Cut", "image": {"url": "https://img.example/cut.png"},
    "author": {"name": "Carol"}}\<close>, on whose date \<^verbatim>\<open>new Date\<close> throws;
  \<^item> \<open>ld-odd\<close> for \<^verbatim>\<open>{"headline": {"toString": 1}}\<close>, a headline that no template
    literal can print.
\<close>

definition ld_script :: "string \<Rightarrow> node" where
  "ld_script src = Element ''script'' [(''type'', ''application/ld+json'')] [TextNode src]"

definition rich_post :: node where
  "rich_post =
     Element [] []
       [Element ''head'' []
          [ld_script ''ld-a'', ld_script ''ld-broken'', ld_script ''ld-b'',
           Element ''meta'' [(''property'', ''og:title''), (''content'', ''OG Title'')] []],
        Element ''body'' []
          [Element ''div'' [(''id'', ''content-blocks'')] [Element ''p'' [] [TextNode ''Hello'']]]]"

text \<open>
  A post page whose one JSON-LD script, \<open>ld-one\<close> for \<^verbatim>\<open>{"headline": "One"}\<close>, gives the
  headline that the listing page showed as the title, and whose \<^verbatim>\<open>og:title\<close> adds the
  name of the site.
\<close>

definition agree_post :: node where
  "agree_post =
     Element [] []
       [Element ''head'' []
          [ld_script ''ld-one'',
           Element ''meta'' [(''property'', ''og:title''), (''content'', ''One | Superhuman AI'')] []],
        Element ''body'' []
          [Element ''div'' [(''id'', ''content-blocks'')] [Element ''p'' [] [TextNode ''Hello'']]]]"

text \<open>A post page with the scripts \<open>ld-a\<close> and \<open>ld-cut\<close>, in this order.\<close>

definition cut_post :: node where
  "cut_post =
     Element [] []
       [Element ''head'' [] [ld_script ''ld-a'', ld_script ''ld-cut''],
        Element ''body'' []
          [Element ''div'' [(''id'', ''content-blocks'')] [Element ''p'' [] [TextNode ''Hello'']]]]"

text \<open>A post page with the script \<open>ld-cut\<close> alone, and one with the script \<open>ld-odd\<close>.\<close>

definition cut_only_post :: node where
  "cut_only_post =
     Element [] []
       [Element ''head'' [] [ld_script ''ld-cut''],
        Element ''body'' []
          [Element ''div'' [(''id'', ''content-blocks'')] [Element ''p'' [] [TextNode ''Hello'']]]]"


definition demo_json :: "string \<Rightarrow> jsval option" where
  "demo_json s =
     (if s = ''ld-a'' then
        Some (JObj [(''headline'', JStr ''First''), (''datePublished'', JStr ''2026-02-21''),
                    (''description'', JStr ''About A''),
                    (''image'', JObj [(''url'', JStr ''https://img.example/a.png'')]),
                    (''author'', JObj [(''name'', JStr ''Alice'')])])
      else if s = ''ld-b'' then Some (JObj [(''headline'', JStr ''Second'')])
      else if s = ''ld-one'' then Some (JObj [(''headline'', JStr ''One'')])
      else if s = ''ld-cut'' then
        Some (JObj [(''headline'', JStr ''Cut''),
                    (''datePublished'', JObj [(''toString'', JNum ''1'')]),
                    (''description'', JStr ''About Cut''),
                    (''image'', JObj [(''url'', JStr ''https://img.example/cut.png'')]),
                    (''author'', JObj [(''name'', JStr ''Carol'')])])
      else if s = ''ld-odd'' then
        Some (JObj [(''headline'', JObj [(''toString'', JNum ''1'')])])
      else None)"

definition meta_env :: env where
  "meta_env =
     \<lparr>fetchHtml = (\<lambda>u.
        if u = ''https://www.superhuman.ai/p/rich'' \<or> u = ''https://codenewsletter.ai/p/rich''
          then Inr ''rich''
        else if u = ''https://www.superhuman.ai/p/one'' \<or> u = ''https://codenewsletter.ai/p/one''
          then Inr ''agree''
        else if u = ''https://www.superhuman.ai/p/cut'' \<or> u = ''https://codenewsletter.ai/p/cut''
          then Inr ''cut''
        else if u = ''https://www.superhuman.ai/p/cut-only''
          then Inr ''cut-only''
        else Inl (''HTTP 404 fetching '' @ u)),
      parse = (\<lambda>h. if h = ''rich'' then rich_post
                    else if h = ''cut'' then cut_post
                    else if h = ''cut-only'' then cut_only_post
                    else agree_post),
      JSON_parse = demo_json,
      long_date = (\<lambda>v. if v = JStr ''2026-02-21'' then ''February 21, 2026'' else ''Invalid Date''),
      turndown = text_of,
      fetchedAt = ''Monday, November 2, 2026''\<rparr>"


definition rich_listing :: "string PostListing" where
  "rich_listing =
     \<lparr>title = ''Rich'', date = ''3 hours ago'', url = ''https://www.superhuman.ai/p/rich'',
      slug = ''rich''\<rparr>"

definition rich_code_listing :: "string PostListing" where
  "rich_code_listing =
     \<lparr>title = ''Rich'', date = ''3 hours ago'', url = ''https://codenewsletter.ai/p/rich'',
      slug = ''rich''\<rparr>"

definition one_listing :: "string PostListing" where
  "one_listing =
     \<lparr>title = ''One'', date = ''Feb 21, 2026'', url = ''https://www.superhuman.ai/p/one'',
      slug = ''one''\<rparr>"

definition one_code_listing :: "string PostListing" where
  "one_code_listing =
     \<lparr>title = ''One'', date = ''Feb 21, 2026'', url = ''https://codenewsletter.ai/p/one'',
      slug = ''one''\<rparr>"

definition cut_listing :: "string PostListing" where
  "cut_listing =
     \<lparr>title = ''Cut post'', date = ''3 hours ago'', url = ''https://www.superhuman.ai/p/cut'',
      slug = ''cut''\<rparr>"

definition cut_code_listing :: "string PostListing" where
  "cut_code_listing =
     \<lparr>title = ''Cut post'', date = ''3 hours ago'', url = ''https://codenewsletter.ai/p/cut'',
      slug = ''cut''\<rparr>"

definition cut_only_listing :: "string PostListing" where
  "cut_only_listing =
     \<lparr>title = ''Cut post'', date = ''3 hours ago'', url = ''https://www.superhuman.ai/p/cut-only'',
      slug = ''cut-only''\<rparr>"

text \<open>The metadata variables as \<^verbatim>\<open>scrapePostContent\<close> seeds them for \<open>rich_listing\<close>.\<close>

definition rich_seed :: metadata where
  "rich_seed =
     \<lparr>m_title = JStr ''Rich'', m_datePublished = ''3 hours ago'', m_description = JStr [],
      m_featuredImage = JStr [], m_author = JStr ''Zain Kahn''\<rparr>"

text \<open>
  A post page with the anchors of the claim on link collection: a fragment, a link to each
  site's own domain, an external link that occurs twice under two texts, an anchor with
  blank text, a share link, and an anchor without \<^verbatim>\<open>href\<close>.
\<close>

definition anchor :: "string \<Rightarrow> string \<Rightarrow> node" where
  "anchor href txt = Element ''a'' [(''href'', href)] [TextNode txt]"

definition links_post :: node where
  "links_post =
     Element [] []
       [Element ''body'' []
          [Element ''div'' [(''id'', ''content-blocks'')]
             [Element ''p'' []
                [TextNode ''Lead story. '', anchor ''https://external.example/story'' ''Read more''],
              anchor ''#section'' ''Jump'',
              anchor ''https://www.superhuman.ai/about'' ''About Superhuman'',
              anchor ''https://codenewsletter.ai/about'' ''About The Code'',
              anchor ''https://external.example/story'' ''Once more'',
              anchor ''https://blank.example/'' ''   '',
              anchor ''https://twitter.com/intent/tweet?text=hi'' ''Tweet'',
              Element ''a'' [(''name'', ''top'')] [TextNode ''Top''],
              anchor ''https://other.example/tool'' '' A tool '']]]"

definition links_env :: env where
  "links_env =
     \<lparr>fetchHtml = (\<lambda>u. Inr ''links''),
      parse = (\<lambda>h. links_post),
      JSON_parse = (\<lambda>s. None),
      long_date = (\<lambda>v. ''February 21, 2026''),
      turndown = text_of,
      fetchedAt = ''Monday, November 2, 2026''\<rparr>"




text \<open>
  A post page whose content element holds a \<^verbatim>\<open>div\<close> with a sponsor line and a story, a
  second \<^verbatim>\<open>div\<close> with a story only, and a sponsor heading.
\<close>

definition sponsor_box :: node where
  "sponsor_box =
     Element ''div'' [(''class'', ''block'')]
       [Element ''p'' [] [TextNode ''PRESENTED BY Acme''],
        Element ''p'' [] [TextNode ''Real story. '']]"

definition sponsor_rest :: "node list" where
  "sponsor_rest =
     [Element ''div'' [] [Element ''p'' [] [TextNode ''Other story. '']],
      Element ''h5'' [] [TextNode ''Sponsored by Bolt''],
      Element ''p'' [] [TextNode ''Last story.'']]"

definition sponsor_post :: node where
  "sponsor_post =
     Element [] []
       [Element ''body'' []
          [Element ''div'' [(''id'', ''content-blocks'')] (sponsor_box # sponsor_rest)]]"

definition sponsor_env :: env where
  "sponsor_env =
     \<lparr>fetchHtml = (\<lambda>u. Inr ''sponsor''),
      parse = (\<lambda>h. sponsor_post),
      JSON_parse = (\<lambda>s. None),
      long_date = (\<lambda>v. ''February 21, 2026''),
      turndown = text_of,
      fetchedAt = ''Monday, November 2, 2026''\<rparr>"



text \<open>Two posts for the formatter.\<close>

definition two_posts :: "PostContent list" where
  "two_posts =
     [\<lparr>title = JStr ''Zebra'', date = ''February 21, 2026'',
       url = ''https://www.superhuman.ai/p/zebra'', slug = ''zebra'', author = JStr ''Zain Kahn'',
       subtitle = JStr ''Stripes'', content_markdown = ''Body Z'',
       external_links = [(''Read more'', ''https://external.example/story'')],
       featured_image = Some (JStr ''https://img.example/z.png'')\<rparr>,
      \<lparr>title = JStr ''Apple'', date = ''February 20, 2026'',
       url = ''https://www.superhuman.ai/p/apple'', slug = ''apple'', author = JStr ''Zain Kahn'',
       subtitle = JStr [], content_markdown = ''Body A'',
       external_links = [], featured_image = None\<rparr>]"

text \<open>
  A post page with an external link that carries the newsletter's domain in a tracking
  parameter, and a relative link to the site's own archive.
\<close>

definition utm_post :: node where
  "utm_post =
     Element [] []
       [Element ''body'' []
          [Element ''div'' [(''id'', ''content-blocks'')]
             [anchor ''https://external.example/story?utm_source=www.superhuman.ai'' ''Read more'',
              anchor ''/archive'' ''Archive'']]]"

definition utm_env :: env where
  "utm_env =
     \<lparr>fetchHtml = (\<lambda>u. Inr ''utm''),
      parse = (\<lambda>h. utm_post),
      JSON_parse = (\<lambda>s. None),
      long_date = (\<lambda>v. ''February 21, 2026''),
      turndown = text_of,
      fetchedAt = ''Monday, November 2, 2026''\<rparr>"

section \<open>Notions used to state the properties\<close>


text \<open>
  A post that the formatter can print: each of the four values that its template literals
  convert has a string form.
\<close>

definition printable :: "PostContent \<Rightarrow> bool" where
  "printable p =
     (js_string (title p) \<noteq> None \<and> js_string (author p) \<noteq> None \<and>
      js_string (subtitle p) \<noteq> None \<and>
      (case featured_image p of None \<Rightarrow> True | Some v \<Rightarrow> js_string v \<noteq> None))"


text \<open>The string form of a value that has one.\<close>

definition shown :: "jsval \<Rightarrow> string" where
  "shown v = (case js_string v of Some s \<Rightarrow> s | None \<Rightarrow> [])"

text \<open>
  The section of a printable post, written out line by line: the heading with the position
  and the title, the date and the author, the source, the summary if the subtitle is
  truthy, the image between blank lines if there is one, a blank line, the body, and the
  list of links if there are any.
\<close>

definition section_text :: "nat \<Rightarrow> nat \<Rightarrow> PostContent \<Rightarrow> string" where
  "section_text n i p =
     ''## [Post '' @ show_nat (i + 1) @ ''/'' @ show_nat n @ ''] '' @ shown (title p) @ [CHR 0x0A]
     @ ''**Date:** '' @ date p @ ''  |  **Author:** '' @ shown (author p) @ [CHR 0x0A]
     @ ''**Source:** <'' @ url p @ ''>''
     @ (if truthy (subtitle p) then [CHR 0x0A] @ ''**Summary:** '' @ shown (subtitle p) else [])
     @ (case featured_image p of
          None \<Rightarrow> []
        | Some v \<Rightarrow>
            if truthy v
            then [CHR 0x0A, CHR 0x0A] @ ''![Featured Image]('' @ shown v @ '')'' @ [CHR 0x0A]
            else [])
     @ [CHR 0x0A, CHR 0x0A] @ content_markdown p
     @ (if external_links p = [] then []
        else [CHR 0x0A, CHR 0x0A] @ ''**Links referenced in this post:**''
             @ concat (map (\<lambda>l. [CHR 0x0A] @ ''- ['' @ fst l @ '']('' @ snd l @ '')'')
                         (external_links p)))"


definition page_listed :: "env \<Rightarrow> nat \<Rightarrow> bool" where
  "page_listed E j = (case scrapePostListings E j of Inr batch \<Rightarrow> batch \<noteq> [] | Inl err \<Rightarrow> False)"


text \<open>
  The value a JSON-LD script provides for a field: the script parses to a value other than
  \<^verbatim>\<open>null\<close>, and reading the field there gives a truthy value.  The fields are given as the
  reading functions below.
\<close>

definition ld_value :: "env \<Rightarrow> (jsval \<Rightarrow> jsval) \<Rightarrow> node \<Rightarrow> jsval option" where
  "ld_value E field script =
     (case JSON_parse E (text_of script) of
        None \<Rightarrow> None
      | Some data \<Rightarrow>
          if data = JNull \<or> data = JUndefined then None
          else if truthy (field data) then Some (field data) else None)"

definition f_headline :: "jsval \<Rightarrow> jsval" where
  "f_headline data = get_prop data ''headline''"

definition f_datePublished :: "jsval \<Rightarrow> jsval" where
  "f_datePublished data = get_prop data ''datePublished''"

definition f_description :: "jsval \<Rightarrow> jsval" where
  "f_description data = get_prop data ''description''"

definition f_image_url :: "jsval \<Rightarrow> jsval" where
  "f_image_url data = opt_prop (get_prop data ''image'') ''url''"

definition f_author_name :: "jsval \<Rightarrow> jsval" where
  "f_author_name data = opt_prop (get_prop data ''author'') ''name''"

text \<open>
  A script is cut short at its date when it provides a \<^verbatim>\<open>datePublished\<close> on which
  \<^verbatim>\<open>new Date\<close> throws.  Such a script provides its headline, which is read before the
  date, and nothing for the date and the fields read after it.
\<close>

definition cut_short :: "env \<Rightarrow> node \<Rightarrow> bool" where
  "cut_short E script =
     (case ld_value E f_datePublished script of Some d \<Rightarrow> date_throws d | None \<Rightarrow> False)"

definition ld_reached :: "env \<Rightarrow> (jsval \<Rightarrow> jsval) \<Rightarrow> node \<Rightarrow> jsval option" where
  "ld_reached E field script = (if cut_short E script then None else ld_value E field script)"

text \<open>The value of the first, and of the last, element of a list that provides one.\<close>

definition first_given :: "('a \<Rightarrow> 'b option) \<Rightarrow> 'a list \<Rightarrow> 'b option" where
  "first_given f xs = (case List.find (\<lambda>x. f x \<noteq> None) xs of None \<Rightarrow> None | Some x \<Rightarrow> f x)"

definition last_given :: "('a \<Rightarrow> 'b option) \<Rightarrow> 'a list \<Rightarrow> 'b option" where
  "last_given f xs = first_given f (rev xs)"

text \<open>
  De-duplication by a key in the words of the specification: the first occurrence wins and
  the order of the list is kept.
\<close>

fun keep_first :: "('a \<Rightarrow> 'k) \<Rightarrow> 'a list \<Rightarrow> 'a list" where
  "keep_first key [] = []"
| "keep_first key (x # xs) = x # keep_first key (filter (\<lambda>y. key y \<noteq> key x) xs)"

text \<open>The entry \<^verbatim>\<open>{ text, url: href }\<close> of an anchor.\<close>

definition link_of :: "node \<Rightarrow> string \<times> string" where
  "link_of a = (link_text a, link_href a)"

text \<open>\<^verbatim>\<open>contentEl.querySelectorAll("a[href]")\<close>.\<close>

definition anchors_of :: "node \<Rightarrow> node list" where
  "anchors_of el = querySelectorAll el [[Tag ''a'', HasAttr ''href'']]"






text \<open>
  Whether a link targets the site with a given domain, in the words of the specification.
  The host of an absolute \<^verbatim>\<open>http\<close> or \<^verbatim>\<open>https\<close> URL stands between \<^verbatim>\<open>//\<close> and the next
  \<^verbatim>\<open>/\<close>, \<^verbatim>\<open>?\<close> or \<^verbatim>\<open>#\<close>; it targets the site when it is the domain or a subdomain of it.
  A relative link that starts with one \<^verbatim>\<open>/\<close> stays on the site of the page.
\<close>

definition endsWith :: "string \<Rightarrow> string \<Rightarrow> bool" where
  "endsWith s p = (length p \<le> length s \<and> drop (length s - length p) s = p)"

definition host_end :: "char \<Rightarrow> bool" where
  "host_end c = (c = CHR ''/'' \<or> c = CHR ''?'' \<or> c = CHR ''#'')"

definition url_host :: "string \<Rightarrow> string option" where
  "url_host u =
     (if startsWith u ''https://'' then Some (takeWhile (\<lambda>c. \<not> host_end c) (drop 8 u))
      else if startsWith u ''http://'' then Some (takeWhile (\<lambda>c. \<not> host_end c) (drop 7 u))
      else None)"

definition targets_site :: "string \<Rightarrow> string \<Rightarrow> bool" where
  "targets_site domain u =
     (case url_host u of
        Some h \<Rightarrow> h = domain \<or> endsWith h (''.'' @ domain)
      | None \<Rightarrow> startsWith u ''/'' \<and> \<not> startsWith u ''//'')"

section \<open>The removal loop\<close>
















lemma matches_TextNode: "\<not> matches sel (TextNode s)"
  by simp



section \<open>Every listing keeps its slot in the digest\<close>





subsection \<open>The text of a section\<close>

lemma js_string_None_truthy: "js_string v = None \<Longrightarrow> truthy v"
  by (cases v) simp_all

lemma summary_line_None: "summary_line v = None \<longleftrightarrow> js_string v = None"
  using js_string_None_truthy[of v] by (auto simp: summary_line_def)

lemma image_line_None:
  "image_line img = None \<longleftrightarrow> (\<exists>v. img = Some v \<and> js_string v = None)"
  using js_string_None_truthy by (auto simp: image_line_def split: option.splits)

lemma digest_section_None: "digest_section n i p = None \<longleftrightarrow> \<not> printable p"
proof -
  have "digest_section n i p = None \<longleftrightarrow>
      js_string (title p) = None \<or> js_string (author p) = None
      \<or> summary_line (subtitle p) = None \<or> image_line (featured_image p) = None"
    by (auto simp: digest_section_def split: option.splits)
  then show ?thesis
    unfolding summary_line_None image_line_None printable_def
    by (cases "featured_image p") auto
qed

lemma meta_lines_five:
  "a \<noteq> [] \<Longrightarrow> b \<noteq> [] \<Longrightarrow> c \<noteq> [] \<Longrightarrow>
   meta_lines [a, b, c, s, g] =
     a @ [CHR 0x0A] @ b @ [CHR 0x0A] @ c
       @ (if s = [] then [] else [CHR 0x0A] @ s) @ (if g = [] then [] else [CHR 0x0A] @ g)"
  by (simp add: meta_lines_def)

lemma join_concat:
  "join sep (x # xs) = x @ concat (map (\<lambda>y. sep @ y) xs)"
  by (induction xs arbitrary: x) simp_all

lemma links_block_concat:
  "links_block ls =
     (if ls = [] then []
      else [CHR 0x0A, CHR 0x0A] @ ''**Links referenced in this post:**''
           @ concat (map (\<lambda>l. [CHR 0x0A] @ ''- ['' @ fst l @ '']('' @ snd l @ '')'') ls))"
proof (cases ls)
  case Nil
  then show ?thesis by (simp add: links_block_def)
next
  case (Cons l ls')
  then show ?thesis by (simp add: links_block_def join_concat comp_def)
qed

lemma digest_section_text:
  assumes "printable p"
  shows "digest_section n i p = Some (section_text n i p)"
proof -
  from assms obtain t a s where
    t: "js_string (title p) = Some t" and a: "js_string (author p) = Some a"
    and s: "js_string (subtitle p) = Some s"
    by (auto simp: printable_def)
  have su: "summary_line (subtitle p)
      = Some (if truthy (subtitle p) then ''**Summary:** '' @ s else [])"
    using s by (simp add: summary_line_def)
  show ?thesis
  proof (cases "featured_image p")
    case None
    then have im: "image_line (featured_image p) = Some []" by (simp add: image_line_def)
    show ?thesis
      unfolding digest_section_def t a su im option.case
      by (simp add: meta_lines_five links_block_concat section_text_def shown_def t a s None)
  next
    case (Some v)
    with assms obtain w where w: "js_string v = Some w" by (auto simp: printable_def)
    have im: "image_line (featured_image p)
        = Some (if truthy v then [CHR 0x0A] @ ''![Featured Image]('' @ w @ '')'' @ [CHR 0x0A] else [])"
      using Some w by (simp add: image_line_def)
    show ?thesis
      unfolding digest_section_def t a su im option.case
      by (simp add: meta_lines_five links_block_concat section_text_def shown_def t a s Some w)
  qed
qed

lemma those_map_Some:
  "(\<And>x. x \<in> set xs \<Longrightarrow> f x = Some (g x)) \<Longrightarrow> those (map f xs) = Some (map g xs)"
  by (induction xs) simp_all

lemma those_map_None:
  "x \<in> set xs \<Longrightarrow> f x = None \<Longrightarrow> those (map f xs) = None"
  by (induction xs) (auto split: option.splits)

lemma map_enumerate_nth:
  "map (\<lambda>ip. f (fst ip) (snd ip)) (enumerate 0 xs) = map (\<lambda>i. f i (xs ! i)) [0..<length xs]"
  by (rule nth_equalityI) (simp_all add: nth_enumerate_eq)

lemma digest_sections_eq:
  "digest_sections posts =
     (if list_all printable posts
      then Some (map (\<lambda>i. section_text (length posts) i (posts ! i)) [0..<length posts])
      else None)"
proof (cases "list_all printable posts")
  case True
  have "those (map (\<lambda>i. digest_section (length posts) i (posts ! i)) [0..<length posts])
      = Some (map (\<lambda>i. section_text (length posts) i (posts ! i)) [0..<length posts])"
  proof (rule those_map_Some)
    fix i assume "i \<in> set [0..<length posts]"
    then have "printable (posts ! i)" using True by (simp add: list_all_length)
    then show "digest_section (length posts) i (posts ! i)
        = Some (section_text (length posts) i (posts ! i))" by (rule digest_section_text)
  qed
  with True show ?thesis by (simp add: digest_sections_def map_enumerate_nth)
next
  case False
  then obtain i where i: "i < length posts" "\<not> printable (posts ! i)"
    by (auto simp: list_all_length)
  then have "digest_section (length posts) i (posts ! i) = None"
    by (simp add: digest_section_None)
  with i(1) have "those (map (\<lambda>i. digest_section (length posts) i (posts ! i)) [0..<length posts])
      = None"
    by (intro those_map_None[of i]) simp_all
  with False show ?thesis by (simp add: digest_sections_def map_enumerate_nth)
qed

lemma format_with_eq:
  "format_with name compiled posts =
     (if list_all printable posts
      then Inr (digest_header name compiled (length posts) @ divider
                @ join divider (map (\<lambda>i. section_text (length posts) i (posts ! i))
                                  [0..<length posts]))
      else Inl TYPE_ERROR)"
  by (simp add: format_with_def digest_sections_eq)








section \<open>The listing: at most \<open>count\<close> references, distinct within a page\<close>










section \<open>The error flag of a tool\<close>



lemma page_listed_fetch:
  "page_listed E j \<Longrightarrow> fetchHtml E (page_url j) \<noteq> Inl msg"
  by (auto simp: page_listed_def scrapePostListings_def split: sum.splits)








section \<open>Metadata from the JSON-LD scripts\<close>

lemma last_given_snoc:
  "last_given f (xs @ [x]) = (case f x of Some v \<Rightarrow> Some v | None \<Rightarrow> last_given f xs)"
  by (simp add: last_given_def first_given_def split: option.splits)

lemma last_given_Nil: "last_given f [] = None"
  by (simp add: last_given_def first_given_def)

lemma foldl_last_given:
  assumes step: "\<And>m x. g (stp m x) = (case f x of Some v \<Rightarrow> h v | None \<Rightarrow> g m)"
  shows "g (foldl stp m0 xs) = (case last_given f xs of Some v \<Rightarrow> h v | None \<Rightarrow> g m0)"
proof (induction xs rule: rev_induct)
  case Nil
  show ?case by (simp add: last_given_Nil)
next
  case (snoc x xs)
  show ?case
  proof (cases "f x")
    case None
    then show ?thesis using snoc by (simp add: step last_given_snoc)
  next
    case (Some v)
    then show ?thesis by (simp add: step last_given_snoc)
  qed
qed

lemma ld_step_title:
  "m_title (ld_step E m s) = (case ld_value E f_headline s of Some v \<Rightarrow> v | None \<Rightarrow> m_title m)"
  by (simp add: ld_step_def ld_value_def f_headline_def Let_def split: option.splits)

lemma ld_step_date:
  "m_datePublished (ld_step E m s) =
     (case ld_reached E f_datePublished s of Some v \<Rightarrow> long_date E v | None \<Rightarrow> m_datePublished m)"
  by (simp add: ld_step_def ld_reached_def cut_short_def ld_value_def f_datePublished_def
        Let_def split: option.splits)

lemma ld_step_description:
  "m_description (ld_step E m s) =
     (case ld_reached E f_description s of Some v \<Rightarrow> v | None \<Rightarrow> m_description m)"
  by (simp add: ld_step_def ld_reached_def cut_short_def ld_value_def f_description_def f_datePublished_def
        Let_def split: option.splits)

lemma ld_step_image:
  "m_featuredImage (ld_step E m s) =
     (case ld_reached E f_image_url s of Some v \<Rightarrow> v | None \<Rightarrow> m_featuredImage m)"
  by (simp add: ld_step_def ld_reached_def cut_short_def ld_value_def f_image_url_def f_datePublished_def
        Let_def split: option.splits)

lemma ld_step_author:
  "m_author (ld_step E m s) =
     (case ld_reached E f_author_name s of Some v \<Rightarrow> v | None \<Rightarrow> m_author m)"
  by (simp add: ld_step_def ld_reached_def cut_short_def ld_value_def f_author_name_def f_datePublished_def
        Let_def split: option.splits)

lemma ld_step_code_title:
  "m_title (ld_step_code E m s) = (case ld_value E f_headline s of Some v \<Rightarrow> v | None \<Rightarrow> m_title m)"
  by (simp add: ld_step_code_def ld_value_def f_headline_def Let_def split: option.splits)

lemma ld_step_code_date:
  "m_datePublished (ld_step_code E m s) =
     (case ld_reached E f_datePublished s of Some v \<Rightarrow> long_date E v | None \<Rightarrow> m_datePublished m)"
  by (simp add: ld_step_code_def ld_reached_def cut_short_def ld_value_def f_datePublished_def
        Let_def split: option.splits)

lemma ld_step_code_description:
  "m_description (ld_step_code E m s) =
     (case ld_reached E f_description s of Some v \<Rightarrow> v | None \<Rightarrow> m_description m)"
  by (simp add: ld_step_code_def ld_reached_def cut_short_def ld_value_def f_description_def f_datePublished_def
        Let_def split: option.splits)

lemma ld_step_code_image:
  "m_featuredImage (ld_step_code E m s) =
     (case ld_reached E f_image_url s of Some v \<Rightarrow> v | None \<Rightarrow> m_featuredImage m)"
  by (simp add: ld_step_code_def ld_reached_def cut_short_def ld_value_def f_image_url_def f_datePublished_def
        Let_def split: option.splits)

lemma ld_step_code_author: "m_author (ld_step_code E m s) = m_author m"
  by (simp add: ld_step_code_def Let_def split: option.splits)

lemma foldl_code_author: "m_author (foldl (ld_step_code E) m0 scripts) = m_author m0"
  by (induction scripts rule: rev_induct) (simp_all add: ld_step_code_author)

lemma og_fallback_author: "m_author (og_fallback l root m) = m_author m"
  by (simp add: og_fallback_def Let_def)

lemma ld_step_cut_short:
  "cut_short E s \<Longrightarrow>
     ld_step E m s = (case ld_value E f_headline s of Some v \<Rightarrow> m\<lparr>m_title := v\<rparr> | None \<Rightarrow> m)"
  "cut_short E s \<Longrightarrow>
     ld_step_code E m s = (case ld_value E f_headline s of Some v \<Rightarrow> m\<lparr>m_title := v\<rparr> | None \<Rightarrow> m)"
  by (auto simp: cut_short_def ld_value_def ld_step_def ld_step_code_def f_headline_def
        f_datePublished_def Let_def split: option.splits if_splits)

text \<open>
  C4, evaluated where the code departs from it.  The page gives the JSON-LD headline
  \<open>One\<close> and the \<^verbatim>\<open>og:title\<close> \<open>One | Superhuman AI\<close>; the listing page showed the post
  under the title \<open>One\<close>.  The headline is assigned, but the test
  \<^verbatim>\<open>title === listing.title\<close> of the fallback then holds, and both extractors return the
  \<^verbatim>\<open>og:title\<close>.
\<close>

theorem og_title_replaces_equal_headline:
  "last_given (ld_value meta_env f_headline) (ld_scripts agree_post) = Some (JStr ''One'')
   \<and> og_content agree_post ''og:title'' = Some ''One | Superhuman AI''
   \<and> title one_listing = ''One''
   \<and> map_sum id title (scrapePostContent meta_env one_listing)
       = Inr (JStr ''One | Superhuman AI'')
   \<and> title one_code_listing = ''One''
   \<and> map_sum id title (scrapeCodePostContent meta_env one_code_listing)
       = Inr (JStr ''One | Superhuman AI'')"
proof -
  have 1: "last_given (ld_value meta_env f_headline) (ld_scripts agree_post) = Some (JStr ''One'')"
    by code_simp
  have 2: "og_content agree_post ''og:title'' = Some ''One | Superhuman AI''" by code_simp
  have 3: "map_sum id title (scrapePostContent meta_env one_listing)
       = Inr (JStr ''One | Superhuman AI'')"
    by code_simp
  have 4: "map_sum id title (scrapeCodePostContent meta_env one_code_listing)
       = Inr (JStr ''One | Superhuman AI'')" by code_simp
  have 5: "title one_listing = ''One''" "title one_code_listing = ''One''"
    by (simp_all add: one_listing_def one_code_listing_def)
  show ?thesis using 1 2 3 4 5 by blast
qed

text \<open>
  C5 as stated fails: the loop assigns at every script that provides a field, so the last
  such script wins, not the first.  Of the headlines \<open>First\<close> and \<open>Second\<close> of two scripts
  the extracted title is \<open>Second\<close>.
\<close>

theorem first_headline_is_overwritten:
  "first_given (ld_value meta_env f_headline) (ld_scripts rich_post) = Some (JStr ''First'')
   \<and> map_sum id title (scrapePostContent meta_env rich_listing) = Inr (JStr ''Second'')
   \<and> map_sum id title (scrapeCodePostContent meta_env rich_code_listing) = Inr (JStr ''Second'')"
proof -
  have 1: "first_given (ld_value meta_env f_headline) (ld_scripts rich_post) = Some (JStr ''First'')"
    by code_simp
  have 2: "map_sum id title (scrapePostContent meta_env rich_listing) = Inr (JStr ''Second'')"
    by code_simp
  have 3: "map_sum id title (scrapeCodePostContent meta_env rich_code_listing) = Inr (JStr ''Second'')"
    by code_simp
  show ?thesis using 1 2 3 by blast
qed

text \<open>
  C5, amended.  After the loop over the JSON-LD scripts, each field that the extractor reads
  holds the value of the last script that provides a truthy value for it, and its seed when
  no script does.  For the fields read after the headline (\<^verbatim>\<open>datePublished\<close>,
  \<^verbatim>\<open>description\<close>, \<^verbatim>\<open>image.url\<close>, and for Superhuman \<^verbatim>\<open>author.name\<close>) a script
  counts only if it is not cut short: a script whose \<^verbatim>\<open>datePublished\<close> makes
  \<^verbatim>\<open>new Date\<close> throw gives its headline and nothing else.  The Code never reads
  \<^verbatim>\<open>author.name\<close>.  A script that does not parse changes nothing, and the extraction
  returns a post whenever the page was fetched.
\<close>

theorem ld_fields_from_last_script:
  "(m_title (foldl (ld_step E) m0 scripts) =
      (case last_given (ld_value E f_headline) scripts of Some v \<Rightarrow> v | None \<Rightarrow> m_title m0)
    \<and> m_datePublished (foldl (ld_step E) m0 scripts) =
      (case last_given (ld_reached E f_datePublished) scripts of
         Some v \<Rightarrow> long_date E v | None \<Rightarrow> m_datePublished m0)
    \<and> m_description (foldl (ld_step E) m0 scripts) =
      (case last_given (ld_reached E f_description) scripts of
         Some v \<Rightarrow> v | None \<Rightarrow> m_description m0)
    \<and> m_featuredImage (foldl (ld_step E) m0 scripts) =
      (case last_given (ld_reached E f_image_url) scripts of
         Some v \<Rightarrow> v | None \<Rightarrow> m_featuredImage m0)
    \<and> m_author (foldl (ld_step E) m0 scripts) =
      (case last_given (ld_reached E f_author_name) scripts of
         Some v \<Rightarrow> v | None \<Rightarrow> m_author m0))
   \<and> (m_title (foldl (ld_step_code E) m0 scripts) =
      (case last_given (ld_value E f_headline) scripts of Some v \<Rightarrow> v | None \<Rightarrow> m_title m0)
    \<and> m_datePublished (foldl (ld_step_code E) m0 scripts) =
      (case last_given (ld_reached E f_datePublished) scripts of
         Some v \<Rightarrow> long_date E v | None \<Rightarrow> m_datePublished m0)
    \<and> m_description (foldl (ld_step_code E) m0 scripts) =
      (case last_given (ld_reached E f_description) scripts of
         Some v \<Rightarrow> v | None \<Rightarrow> m_description m0)
    \<and> m_featuredImage (foldl (ld_step_code E) m0 scripts) =
      (case last_given (ld_reached E f_image_url) scripts of
         Some v \<Rightarrow> v | None \<Rightarrow> m_featuredImage m0)
    \<and> m_author (foldl (ld_step_code E) m0 scripts) = m_author m0)
   \<and> (JSON_parse E (text_of s) = None \<longrightarrow> ld_step E m s = m \<and> ld_step_code E m s = m)
   \<and> (cut_short E s \<longrightarrow>
        ld_step E m s
          = (case ld_value E f_headline s of Some v \<Rightarrow> m\<lparr>m_title := v\<rparr> | None \<Rightarrow> m)
        \<and> ld_step_code E m s
          = (case ld_value E f_headline s of Some v \<Rightarrow> m\<lparr>m_title := v\<rparr> | None \<Rightarrow> m))
   \<and> (fetchHtml E (url l) = Inr html \<longrightarrow>
        (\<exists>c. scrapePostContent E l = Inr c) \<and> (\<exists>c. scrapeCodePostContent E l = Inr c))"
proof (intro conjI impI)
  show "m_title (foldl (ld_step E) m0 scripts) =
      (case last_given (ld_value E f_headline) scripts of Some v \<Rightarrow> v | None \<Rightarrow> m_title m0)"
    by (rule foldl_last_given) (rule ld_step_title)
  show "m_datePublished (foldl (ld_step E) m0 scripts) =
      (case last_given (ld_reached E f_datePublished) scripts of
         Some v \<Rightarrow> long_date E v | None \<Rightarrow> m_datePublished m0)"
    by (rule foldl_last_given) (rule ld_step_date)
  show "m_description (foldl (ld_step E) m0 scripts) =
      (case last_given (ld_reached E f_description) scripts of
         Some v \<Rightarrow> v | None \<Rightarrow> m_description m0)"
    by (rule foldl_last_given) (rule ld_step_description)
  show "m_featuredImage (foldl (ld_step E) m0 scripts) =
      (case last_given (ld_reached E f_image_url) scripts of
         Some v \<Rightarrow> v | None \<Rightarrow> m_featuredImage m0)"
    by (rule foldl_last_given) (rule ld_step_image)
  show "m_author (foldl (ld_step E) m0 scripts) =
      (case last_given (ld_reached E f_author_name) scripts of
         Some v \<Rightarrow> v | None \<Rightarrow> m_author m0)"
    by (rule foldl_last_given) (rule ld_step_author)
  show "m_title (foldl (ld_step_code E) m0 scripts) =
      (case last_given (ld_value E f_headline) scripts of Some v \<Rightarrow> v | None \<Rightarrow> m_title m0)"
    by (rule foldl_last_given) (rule ld_step_code_title)
  show "m_datePublished (foldl (ld_step_code E) m0 scripts) =
      (case last_given (ld_reached E f_datePublished) scripts of
         Some v \<Rightarrow> long_date E v | None \<Rightarrow> m_datePublished m0)"
    by (rule foldl_last_given) (rule ld_step_code_date)
  show "m_description (foldl (ld_step_code E) m0 scripts) =
      (case last_given (ld_reached E f_description) scripts of
         Some v \<Rightarrow> v | None \<Rightarrow> m_description m0)"
    by (rule foldl_last_given) (rule ld_step_code_description)
  show "m_featuredImage (foldl (ld_step_code E) m0 scripts) =
      (case last_given (ld_reached E f_image_url) scripts of
         Some v \<Rightarrow> v | None \<Rightarrow> m_featuredImage m0)"
    by (rule foldl_last_given) (rule ld_step_code_image)
  show "m_author (foldl (ld_step_code E) m0 scripts) = m_author m0"
    by (rule foldl_code_author)
next
  assume "JSON_parse E (text_of s) = None"
  then show "ld_step E m s = m" and "ld_step_code E m s = m"
    by (simp_all add: ld_step_def ld_step_code_def)
next
  assume c: "cut_short E s"
  show "ld_step E m s
      = (case ld_value E f_headline s of Some v \<Rightarrow> m\<lparr>m_title := v\<rparr> | None \<Rightarrow> m)"
    by (rule ld_step_cut_short(1)[OF c])
  show "ld_step_code E m s
      = (case ld_value E f_headline s of Some v \<Rightarrow> m\<lparr>m_title := v\<rparr> | None \<Rightarrow> m)"
    by (rule ld_step_cut_short(2)[OF c])
next
  assume "fetchHtml E (url l) = Inr html"
  then show "\<exists>c. scrapePostContent E l = Inr c" and "\<exists>c. scrapeCodePostContent E l = Inr c"
    by (simp_all add: scrapePostContent_def scrapeCodePostContent_def Let_def)
qed

text \<open>
  The amended claim on two pages.  On the page with the scripts \<open>ld-a\<close>, \<open>ld-broken\<close> and
  \<open>ld-b\<close> the broken script is passed over, the title comes from \<open>ld-b\<close>, the other
  fields from \<open>ld-a\<close>, the only script that has them.  On the page with the scripts
  \<open>ld-a\<close> and \<open>ld-cut\<close> the second script is cut short at its date: the title is its
  headline, while the description, the image and the author stay those of \<open>ld-a\<close>
  although \<open>ld-cut\<close> names others.
\<close>

theorem ld_fields_from_last_script_witness:
  "JSON_parse meta_env (text_of (ld_script ''ld-broken'')) = None
   \<and> ld_step meta_env rich_seed (ld_script ''ld-broken'') = rich_seed
   \<and> ld_step_code meta_env rich_seed (ld_script ''ld-broken'') = rich_seed
   \<and> fetchHtml meta_env (url rich_listing) = Inr ''rich''
   \<and> (\<exists>c. scrapePostContent meta_env rich_listing = Inr c)
   \<and> (\<exists>c. scrapeCodePostContent meta_env rich_listing = Inr c)
   \<and> m_title (foldl (ld_step meta_env) rich_seed (ld_scripts rich_post)) = JStr ''Second''
   \<and> m_datePublished (foldl (ld_step meta_env) rich_seed (ld_scripts rich_post))
       = ''February 21, 2026''
   \<and> m_description (foldl (ld_step meta_env) rich_seed (ld_scripts rich_post)) = JStr ''About A''
   \<and> m_featuredImage (foldl (ld_step meta_env) rich_seed (ld_scripts rich_post))
       = JStr ''https://img.example/a.png''
   \<and> m_author (foldl (ld_step meta_env) rich_seed (ld_scripts rich_post)) = JStr ''Alice''
   \<and> m_title (foldl (ld_step_code meta_env) rich_seed (ld_scripts rich_post)) = JStr ''Second''
   \<and> m_author (foldl (ld_step_code meta_env) rich_seed (ld_scripts rich_post)) = JStr ''Zain Kahn''
   \<and> cut_short meta_env (ld_script ''ld-cut'')
   \<and> ld_value meta_env f_description (ld_script ''ld-cut'') = Some (JStr ''About Cut'')
   \<and> ld_step meta_env rich_seed (ld_script ''ld-cut'') = rich_seed\<lparr>m_title := JStr ''Cut''\<rparr>
   \<and> ld_step_code meta_env rich_seed (ld_script ''ld-cut'') = rich_seed\<lparr>m_title := JStr ''Cut''\<rparr>
   \<and> m_title (foldl (ld_step meta_env) rich_seed (ld_scripts cut_post)) = JStr ''Cut''
   \<and> m_datePublished (foldl (ld_step meta_env) rich_seed (ld_scripts cut_post))
       = ''February 21, 2026''
   \<and> m_description (foldl (ld_step meta_env) rich_seed (ld_scripts cut_post)) = JStr ''About A''
   \<and> m_featuredImage (foldl (ld_step meta_env) rich_seed (ld_scripts cut_post))
       = JStr ''https://img.example/a.png''
   \<and> m_author (foldl (ld_step meta_env) rich_seed (ld_scripts cut_post)) = JStr ''Alice''"
proof -
  have p: "JSON_parse meta_env (text_of (ld_script ''ld-broken'')) = None" by code_simp
  have f: "fetchHtml meta_env (url rich_listing) = Inr ''rich''" by code_simp
  have g1: "last_given (ld_value meta_env f_headline) (ld_scripts rich_post) = Some (JStr ''Second'')"
    by code_simp
  have g2: "last_given (ld_reached meta_env f_datePublished) (ld_scripts rich_post)
      = Some (JStr ''2026-02-21'')" by code_simp
  have g3: "last_given (ld_reached meta_env f_description) (ld_scripts rich_post)
      = Some (JStr ''About A'')" by code_simp
  have g4: "last_given (ld_reached meta_env f_image_url) (ld_scripts rich_post)
      = Some (JStr ''https://img.example/a.png'')" by code_simp
  have g5: "last_given (ld_reached meta_env f_author_name) (ld_scripts rich_post)
      = Some (JStr ''Alice'')" by code_simp
  have h1: "last_given (ld_value meta_env f_headline) (ld_scripts cut_post) = Some (JStr ''Cut'')"
    by code_simp
  have h2: "last_given (ld_reached meta_env f_datePublished) (ld_scripts cut_post)
      = Some (JStr ''2026-02-21'')" by code_simp
  have h3: "last_given (ld_reached meta_env f_description) (ld_scripts cut_post)
      = Some (JStr ''About A'')" by code_simp
  have h4: "last_given (ld_reached meta_env f_image_url) (ld_scripts cut_post)
      = Some (JStr ''https://img.example/a.png'')" by code_simp
  have h5: "last_given (ld_reached meta_env f_author_name) (ld_scripts cut_post)
      = Some (JStr ''Alice'')" by code_simp
  have k1: "cut_short meta_env (ld_script ''ld-cut'')" by code_simp
  have k2: "ld_value meta_env f_description (ld_script ''ld-cut'') = Some (JStr ''About Cut'')"
    by code_simp
  have k3: "ld_value meta_env f_headline (ld_script ''ld-cut'') = Some (JStr ''Cut'')"
    by code_simp
  have d: "long_date meta_env (JStr ''2026-02-21'') = ''February 21, 2026''" by code_simp
  have a0: "m_author rich_seed = JStr ''Zain Kahn''" by (simp add: rich_seed_def)
  note th = ld_fields_from_last_script
    [where E = meta_env and ?m0.0 = rich_seed and scripts = "ld_scripts rich_post"
       and s = "ld_script ''ld-broken''" and m = rich_seed and l = rich_listing and html = "''rich''"]
  note tc = ld_fields_from_last_script
    [where E = meta_env and ?m0.0 = rich_seed and scripts = "ld_scripts cut_post"
       and s = "ld_script ''ld-cut''" and m = rich_seed]
  from th p have s1: "ld_step meta_env rich_seed (ld_script ''ld-broken'') = rich_seed"
    and s2: "ld_step_code meta_env rich_seed (ld_script ''ld-broken'') = rich_seed" by blast+
  from th f have e1: "\<exists>c. scrapePostContent meta_env rich_listing = Inr c"
    and e2: "\<exists>c. scrapeCodePostContent meta_env rich_listing = Inr c" by blast+
  from th g1 have t1: "m_title (foldl (ld_step meta_env) rich_seed (ld_scripts rich_post))
      = JStr ''Second''" by simp
  from th g2 d have t2: "m_datePublished (foldl (ld_step meta_env) rich_seed (ld_scripts rich_post))
       = ''February 21, 2026''" by simp
  from th g3 have t3: "m_description (foldl (ld_step meta_env) rich_seed (ld_scripts rich_post))
       = JStr ''About A''" by simp
  from th g4 have t4: "m_featuredImage (foldl (ld_step meta_env) rich_seed (ld_scripts rich_post))
       = JStr ''https://img.example/a.png''" by simp
  from th g5 have t5: "m_author (foldl (ld_step meta_env) rich_seed (ld_scripts rich_post))
       = JStr ''Alice''" by simp
  from th g1 have t6: "m_title (foldl (ld_step_code meta_env) rich_seed (ld_scripts rich_post))
       = JStr ''Second''" by simp
  from th a0 have t7: "m_author (foldl (ld_step_code meta_env) rich_seed (ld_scripts rich_post))
       = JStr ''Zain Kahn''" by simp
  from tc k1 k3 have c1: "ld_step meta_env rich_seed (ld_script ''ld-cut'')
       = rich_seed\<lparr>m_title := JStr ''Cut''\<rparr>"
    and c2: "ld_step_code meta_env rich_seed (ld_script ''ld-cut'')
       = rich_seed\<lparr>m_title := JStr ''Cut''\<rparr>" by simp_all
  from tc h1 have u1: "m_title (foldl (ld_step meta_env) rich_seed (ld_scripts cut_post))
      = JStr ''Cut''" by simp
  from tc h2 d have u2: "m_datePublished (foldl (ld_step meta_env) rich_seed (ld_scripts cut_post))
       = ''February 21, 2026''" by simp
  from tc h3 have u3: "m_description (foldl (ld_step meta_env) rich_seed (ld_scripts cut_post))
       = JStr ''About A''" by simp
  from tc h4 have u4: "m_featuredImage (foldl (ld_step meta_env) rich_seed (ld_scripts cut_post))
       = JStr ''https://img.example/a.png''" by simp
  from tc h5 have u5: "m_author (foldl (ld_step meta_env) rich_seed (ld_scripts cut_post))
       = JStr ''Alice''" by simp
  show ?thesis
    using p s1 s2 f e1 e2 t1 t2 t3 t4 t5 t6 t7 k1 k2 c1 c2 u1 u2 u3 u4 u5 by blast
qed

section \<open>The author of a post\<close>

lemma author_make_content: "author (make_content E l m own el) = m_author m"
  by (simp add: make_content_def)

text \<open>
  C6 as stated fails for The Code: its extractor declares \<^verbatim>\<open>const author = CODE_AUTHOR\<close>
  and never reads \<^verbatim>\<open>author.name\<close>.  On a page whose JSON-LD names the author \<open>Alice\<close>
  the post's author is still \<open>The Code team\<close>.  It fails for Superhuman too, on a page
  whose one script names the author \<open>Carol\<close> after a \<^verbatim>\<open>datePublished\<close> on which
  \<^verbatim>\<open>new Date\<close> throws: the script is left before its author is read, and the post's
  author is \<open>Zain Kahn\<close>.
\<close>

theorem code_author_ignores_json_ld:
  "last_given (ld_value meta_env f_author_name) (ld_scripts rich_post) = Some (JStr ''Alice'')
   \<and> map_sum id author (scrapeCodePostContent meta_env rich_code_listing)
       = Inr (JStr ''The Code team'')
   \<and> last_given (ld_value meta_env f_author_name) (ld_scripts cut_only_post)
       = Some (JStr ''Carol'')
   \<and> map_sum id author (scrapePostContent meta_env cut_only_listing) = Inr (JStr ''Zain Kahn'')"
proof -
  have 1: "last_given (ld_value meta_env f_author_name) (ld_scripts rich_post)
     = Some (JStr ''Alice'')" by code_simp
  have 2: "map_sum id author (scrapeCodePostContent meta_env rich_code_listing)
     = Inr (JStr ''The Code team'')" by code_simp
  have 3: "last_given (ld_value meta_env f_author_name) (ld_scripts cut_only_post)
       = Some (JStr ''Carol'')" by code_simp
  have 4: "map_sum id author (scrapePostContent meta_env cut_only_listing)
       = Inr (JStr ''Zain Kahn'')" by code_simp
  show ?thesis using 1 2 3 4 by blast
qed

text \<open>
  C6, amended.  For every post that the Superhuman extractor returns, the author is the
  \<^verbatim>\<open>author.name\<close> of the last JSON-LD script of the page that provides a truthy one and
  is not cut short (by a \<^verbatim>\<open>datePublished\<close> on which \<^verbatim>\<open>new Date\<close> throws), and
  \<open>Zain Kahn\<close> when there is no such script.  For every post that The Code's extractor
  returns, the author is the constant \<open>The Code team\<close>.
\<close>

theorem author_of_extracted_post:
  "(scrapePostContent E l = Inr c \<longrightarrow>
      (\<exists>html. fetchHtml E (url l) = Inr html \<and>
         author c =
           (case last_given (ld_reached E f_author_name) (ld_scripts (parse E html)) of
              Some v \<Rightarrow> v
            | None \<Rightarrow> JStr ''Zain Kahn'')))
   \<and> (scrapeCodePostContent E l' = Inr c' \<longrightarrow> author c' = JStr CODE_AUTHOR)"
proof (intro conjI impI)
  assume a: "scrapePostContent E l = Inr c"
  then obtain html where h: "fetchHtml E (url l) = Inr html"
    by (cases "fetchHtml E (url l)") (simp_all add: scrapePostContent_def)
  let ?seed = "\<lparr>m_title = JStr (title l), m_datePublished = date l, m_description = JStr [],
        m_featuredImage = JStr [], m_author = JStr ''Zain Kahn''\<rparr>"
  from a h have "author c = m_author (superhuman_metadata E l (parse E html))"
    by (auto simp: scrapePostContent_def Let_def author_make_content)
  also have "m_author (superhuman_metadata E l (parse E html))
      = m_author (foldl (ld_step E) ?seed (ld_scripts (parse E html)))"
    by (simp add: superhuman_metadata_def og_fallback_author)
  also have "\<dots> = (case last_given (ld_reached E f_author_name) (ld_scripts (parse E html)) of
              Some v \<Rightarrow> v | None \<Rightarrow> m_author ?seed)"
    by (rule foldl_last_given) (rule ld_step_author)
  finally have "author c =
           (case last_given (ld_reached E f_author_name) (ld_scripts (parse E html)) of
              Some v \<Rightarrow> v
            | None \<Rightarrow> JStr ''Zain Kahn'')"
    by (simp split: option.splits)
  with h show "\<exists>html. fetchHtml E (url l) = Inr html \<and>
         author c =
           (case last_given (ld_reached E f_author_name) (ld_scripts (parse E html)) of
              Some v \<Rightarrow> v
            | None \<Rightarrow> JStr ''Zain Kahn'')" by blast
next
  assume a: "scrapeCodePostContent E l' = Inr c'"
  then obtain html where h: "fetchHtml E (url l') = Inr html"
    by (cases "fetchHtml E (url l')") (simp_all add: scrapeCodePostContent_def)
  from a h have "author c' = m_author (code_metadata E l' (parse E html))"
    by (auto simp: scrapeCodePostContent_def Let_def author_make_content)
  then show "author c' = JStr CODE_AUTHOR"
    by (simp add: code_metadata_def og_fallback_author foldl_code_author)
qed

text \<open>
  The amended claim for the Superhuman extractor on the page whose JSON-LD names \<open>Alice\<close>,
  on the page whose JSON-LD names no author, on the page where \<open>Alice\<close> is named by a
  script that runs to its end and \<open>Carol\<close> by a later one that is cut short, and on the
  page where \<open>Carol\<close> is named by a script that is cut short and by no other; and for The
  Code's extractor on the first of these pages.
\<close>

theorem author_of_extracted_post_witness:
  "(\<exists>c. scrapePostContent meta_env rich_listing = Inr c \<and> author c = JStr ''Alice'')
   \<and> (\<exists>c. scrapePostContent meta_env one_listing = Inr c \<and> author c = JStr ''Zain Kahn'')
   \<and> (\<exists>c. scrapePostContent meta_env cut_listing = Inr c \<and> author c = JStr ''Alice'')
   \<and> (\<exists>c. scrapePostContent meta_env cut_only_listing = Inr c \<and> author c = JStr ''Zain Kahn'')
   \<and> (\<exists>c. scrapeCodePostContent meta_env rich_code_listing = Inr c
          \<and> author c = JStr ''The Code team'')"
proof -
  have f1: "fetchHtml meta_env (url rich_listing) = Inr ''rich''" by code_simp
  have f2: "fetchHtml meta_env (url one_listing) = Inr ''agree''" by code_simp
  have f3: "fetchHtml meta_env (url rich_code_listing) = Inr ''rich''" by code_simp
  have f4: "fetchHtml meta_env (url cut_listing) = Inr ''cut''" by code_simp
  have f5: "fetchHtml meta_env (url cut_only_listing) = Inr ''cut-only''" by code_simp
  have g1: "last_given (ld_reached meta_env f_author_name) (ld_scripts (parse meta_env ''rich''))
      = Some (JStr ''Alice'')" by code_simp
  have g2: "last_given (ld_reached meta_env f_author_name) (ld_scripts (parse meta_env ''agree''))
      = None" by code_simp
  have g4: "last_given (ld_reached meta_env f_author_name) (ld_scripts (parse meta_env ''cut''))
      = Some (JStr ''Alice'')" by code_simp
  have g5: "last_given (ld_reached meta_env f_author_name)
      (ld_scripts (parse meta_env ''cut-only'')) = None" by code_simp
  from f1 obtain c1 where c1: "scrapePostContent meta_env rich_listing = Inr c1"
    by (simp add: scrapePostContent_def Let_def)
  from f2 obtain c2 where c2: "scrapePostContent meta_env one_listing = Inr c2"
    by (simp add: scrapePostContent_def Let_def)
  from f3 obtain c3 where c3: "scrapeCodePostContent meta_env rich_code_listing = Inr c3"
    by (simp add: scrapeCodePostContent_def Let_def)
  from f4 obtain c4 where c4: "scrapePostContent meta_env cut_listing = Inr c4"
    by (simp add: scrapePostContent_def Let_def)
  from f5 obtain c5 where c5: "scrapePostContent meta_env cut_only_listing = Inr c5"
    by (simp add: scrapePostContent_def Let_def)
  from author_of_extracted_post
    [where E = meta_env and l = rich_listing and c = c1 and l' = rich_code_listing and c' = c3]
    c1 c3 f1 g1
  have a1: "author c1 = JStr ''Alice''" and a3: "author c3 = JStr ''The Code team''"
    by (auto simp: CODE_AUTHOR_def)
  from author_of_extracted_post
    [where E = meta_env and l = one_listing and c = c2 and l' = rich_code_listing and c' = c3]
    c2 f2 g2
  have a2: "author c2 = JStr ''Zain Kahn''" by auto
  from author_of_extracted_post
    [where E = meta_env and l = cut_listing and c = c4 and l' = rich_code_listing and c' = c3]
    c4 f4 g4
  have a4: "author c4 = JStr ''Alice''" by auto
  from author_of_extracted_post
    [where E = meta_env and l = cut_only_listing and c = c5 and l' = rich_code_listing and c' = c3]
    c5 f5 g5
  have a5: "author c5 = JStr ''Zain Kahn''" by auto
  show ?thesis using c1 a1 c2 a2 c3 a3 c4 a4 c5 a5 by blast
qed

section \<open>The external links of a post\<close>

lemma set_keep_first: "set (keep_first key xs) \<subseteq> set xs"
  by (induction key xs rule: keep_first.induct) auto

lemma keys_keep_first: "key ` set (keep_first key xs) = key ` set xs"
proof (induction key xs rule: keep_first.induct)
  case (1 key)
  show ?case by simp
next
  case (2 key x xs)
  have "key ` set (x # xs) = insert (key x) (key ` set (filter (\<lambda>y. key y \<noteq> key x) xs))"
    by auto
  with 2 show ?case by simp
qed

lemma distinct_keep_first: "distinct (map key (keep_first key xs))"
proof (induction key xs rule: keep_first.induct)
  case (1 key)
  show ?case by simp
next
  case (2 key x xs)
  have "key x \<notin> key ` set (keep_first key (filter (\<lambda>y. key y \<noteq> key x) xs))"
    using set_keep_first[of key "filter (\<lambda>y. key y \<noteq> key x) xs"] by auto
  with 2 show ?case by simp
qed

lemma link_loop_keep_first:
  "link_loop own seen anchors =
     map link_of (keep_first link_href
        (filter (\<lambda>a. qualifies own a \<and> link_href a \<notin> seen) anchors))"
proof (induction anchors arbitrary: seen)
  case Nil
  show ?case by simp
next
  case (Cons a rest)
  show ?case
  proof (cases "qualifies own a \<and> link_href a \<notin> seen")
    case True
    have "filter (\<lambda>y. link_href y \<noteq> link_href a) (filter (\<lambda>a. qualifies own a \<and> link_href a \<notin> seen) rest)
        = filter (\<lambda>b. qualifies own b \<and> link_href b \<notin> insert (link_href a) seen) rest"
      by (simp add: conj_ac cong: conj_cong)
    with True Cons[of "insert (link_href a) seen"] show ?thesis by (simp add: link_of_def)
  next
    case False
    with Cons[of seen] show ?thesis by auto
  qed
qed

lemma collect_links_keep_first:
  "collect_links own el = map link_of (keep_first link_href (filter (qualifies own) (anchors_of el)))"
  by (simp add: collect_links_def anchors_of_def link_loop_keep_first)

text \<open>
  C7 as stated fails: the extractor does not look at what a link targets, it looks for the
  domain name anywhere in the \<^verbatim>\<open>href\<close>.  An external link that carries the newsletter's
  domain in a tracking parameter is left out, and a relative link to the site's own archive
  is listed.
\<close>

theorem external_links_by_substring_counterexample:
  "\<not> targets_site ''superhuman.ai'' ''https://external.example/story?utm_source=www.superhuman.ai''
   \<and> targets_site ''superhuman.ai'' ''/archive''
   \<and> targets_site ''superhuman.ai'' ''https://www.superhuman.ai/about''
   \<and> map_sum id external_links (scrapePostContent utm_env one_listing)
       = Inr [(''Archive'', ''/archive'')]"
proof -
  have 1: "\<not> targets_site ''superhuman.ai''
      ''https://external.example/story?utm_source=www.superhuman.ai''" by code_simp
  have 2: "targets_site ''superhuman.ai'' ''/archive''" by code_simp
  have 3: "targets_site ''superhuman.ai'' ''https://www.superhuman.ai/about''" by code_simp
  have 4: "map_sum id external_links (scrapePostContent utm_env one_listing)
       = Inr [(''Archive'', ''/archive'')]" by code_simp
  show ?thesis using 1 2 3 4 by blast
qed

text \<open>
  C7, amended.  The external links of an extracted post are the entries of those
  \<^verbatim>\<open>a[href]\<close> anchors of the cleaned content element that qualify: the \<^verbatim>\<open>href\<close> is not
  empty, does not start with \<^verbatim>\<open>#\<close>, contains nowhere the site's own domain name
  (\<^verbatim>\<open>superhuman.ai\<close>, \<^verbatim>\<open>codenewsletter.ai\<close>) nor one of \<^verbatim>\<open>beehiiv.com\<close>,
  \<^verbatim>\<open>twitter.com/intent\<close>, \<^verbatim>\<open>facebook.com/sharer\<close>, \<^verbatim>\<open>linkedin.com/sharing\<close>, and the
  trimmed text is not empty.  They are de-duplicated by \<^verbatim>\<open>href\<close> with the first
  occurrence winning, in document order.  So the URLs of the list are distinct and are
  exactly the \<^verbatim>\<open>href\<close>s of the qualifying anchors.
\<close>

theorem external_links_first_qualifying:
  "(scrapePostContent E l = Inr c \<longrightarrow>
      (\<exists>html. fetchHtml E (url l) = Inr html \<and>
         external_links c =
           map link_of (keep_first link_href (filter (qualifies ''superhuman.ai'')
             (anchors_of (superhuman_clean (parse E html)))))))
   \<and> (scrapeCodePostContent E l' = Inr c' \<longrightarrow>
      (\<exists>html. fetchHtml E (url l') = Inr html \<and>
         external_links c' =
           map link_of (keep_first link_href (filter (qualifies ''codenewsletter.ai'')
             (anchors_of (code_clean (parse E html)))))))
   \<and> distinct (map snd (collect_links own el))
   \<and> snd ` set (collect_links own el) = link_href ` {a \<in> set (anchors_of el). qualifies own a}
   \<and> (qualifies own a \<longleftrightarrow>
        link_href a \<noteq> [] \<and> \<not> startsWith (link_href a) ''#'' \<and> \<not> str_includes (link_href a) own
        \<and> \<not> str_includes (link_href a) ''beehiiv.com''
        \<and> \<not> str_includes (link_href a) ''twitter.com/intent''
        \<and> \<not> str_includes (link_href a) ''facebook.com/sharer''
        \<and> \<not> str_includes (link_href a) ''linkedin.com/sharing''
        \<and> trim (text_of a) \<noteq> [])"
proof (intro conjI impI)
  assume a: "scrapePostContent E l = Inr c"
  then obtain html where h: "fetchHtml E (url l) = Inr html"
    by (cases "fetchHtml E (url l)") (simp_all add: scrapePostContent_def)
  from a h have "external_links c = collect_links ''superhuman.ai'' (superhuman_clean (parse E html))"
    by (auto simp: scrapePostContent_def Let_def make_content_def)
  with h show "\<exists>html. fetchHtml E (url l) = Inr html \<and>
         external_links c =
           map link_of (keep_first link_href (filter (qualifies ''superhuman.ai'')
             (anchors_of (superhuman_clean (parse E html)))))"
    by (auto simp: collect_links_keep_first)
next
  assume a: "scrapeCodePostContent E l' = Inr c'"
  then obtain html where h: "fetchHtml E (url l') = Inr html"
    by (cases "fetchHtml E (url l')") (simp_all add: scrapeCodePostContent_def)
  from a h have "external_links c' = collect_links ''codenewsletter.ai'' (code_clean (parse E html))"
    by (auto simp: scrapeCodePostContent_def Let_def make_content_def)
  with h show "\<exists>html. fetchHtml E (url l') = Inr html \<and>
         external_links c' =
           map link_of (keep_first link_href (filter (qualifies ''codenewsletter.ai'')
             (anchors_of (code_clean (parse E html)))))"
    by (auto simp: collect_links_keep_first)
next
  have "map snd (collect_links own el)
      = map link_href (keep_first link_href (filter (qualifies own) (anchors_of el)))"
    by (simp add: collect_links_keep_first link_of_def comp_def)
  then show "distinct (map snd (collect_links own el))"
    by (simp add: distinct_keep_first)
next
  have "snd ` set (collect_links own el)
      = link_href ` set (keep_first link_href (filter (qualifies own) (anchors_of el)))"
    by (simp add: collect_links_keep_first link_of_def image_image)
  also have "\<dots> = link_href ` set (filter (qualifies own) (anchors_of el))"
    by (rule keys_keep_first)
  finally show "snd ` set (collect_links own el)
      = link_href ` {a \<in> set (anchors_of el). qualifies own a}" by simp
next
  show "qualifies own a \<longleftrightarrow>
        link_href a \<noteq> [] \<and> \<not> startsWith (link_href a) ''#'' \<and> \<not> str_includes (link_href a) own
        \<and> \<not> str_includes (link_href a) ''beehiiv.com''
        \<and> \<not> str_includes (link_href a) ''twitter.com/intent''
        \<and> \<not> str_includes (link_href a) ''facebook.com/sharer''
        \<and> \<not> str_includes (link_href a) ''linkedin.com/sharing''
        \<and> trim (text_of a) \<noteq> []"
    by (simp add: qualifies_def link_text_def)
qed

text \<open>
  The amended claim on the page of anchors: the fragment, the link to the site's own domain, the
  blank anchor and the share link are left out, the repeated link is listed once under its
  first text, and the order is that of the document.
\<close>

theorem external_links_first_qualifying_witness:
  "(\<exists>c. scrapePostContent links_env one_listing = Inr c \<and>
        external_links c =
          [(''Read more'', ''https://external.example/story''),
           (''About The Code'', ''https://codenewsletter.ai/about''),
           (''A tool'', ''https://other.example/tool'')])
   \<and> (\<exists>c. scrapeCodePostContent links_env one_code_listing = Inr c \<and>
        external_links c =
          [(''Read more'', ''https://external.example/story''),
           (''About Superhuman'', ''https://www.superhuman.ai/about''),
           (''A tool'', ''https://other.example/tool'')])"
proof -
  have f1: "fetchHtml links_env (url one_listing) = Inr ''links''" by code_simp
  have f2: "fetchHtml links_env (url one_code_listing) = Inr ''links''" by code_simp
  have k1: "map link_of (keep_first link_href (filter (qualifies ''superhuman.ai'')
             (anchors_of (superhuman_clean (parse links_env ''links'')))))
      = [(''Read more'', ''https://external.example/story''),
           (''About The Code'', ''https://codenewsletter.ai/about''),
           (''A tool'', ''https://other.example/tool'')]" by code_simp
  have k2: "map link_of (keep_first link_href (filter (qualifies ''codenewsletter.ai'')
             (anchors_of (code_clean (parse links_env ''links'')))))
      = [(''Read more'', ''https://external.example/story''),
           (''About Superhuman'', ''https://www.superhuman.ai/about''),
           (''A tool'', ''https://other.example/tool'')]" by code_simp
  from f1 obtain c1 where c1: "scrapePostContent links_env one_listing = Inr c1"
    by (simp add: scrapePostContent_def Let_def)
  from f2 obtain c2 where c2: "scrapeCodePostContent links_env one_code_listing = Inr c2"
    by (simp add: scrapeCodePostContent_def Let_def)
  note th = external_links_first_qualifying
    [where E = links_env and l = one_listing and c = c1 and l' = one_code_listing and c' = c2]
  from th c1 f1 k1 have e1: "external_links c1 =
          [(''Read more'', ''https://external.example/story''),
           (''About The Code'', ''https://codenewsletter.ai/about''),
           (''A tool'', ''https://other.example/tool'')]" by auto
  from th c2 f2 k2 have e2: "external_links c2 =
          [(''Read more'', ''https://external.example/story''),
           (''About Superhuman'', ''https://www.superhuman.ai/about''),
           (''A tool'', ''https://other.example/tool'')]" by auto
  show ?thesis using c1 e1 c2 e2 by blast
qed

section \<open>Noise elements of the content element\<close>




lemma subtree_descendants:
  "subtree (Element t a cs) = Element t a cs # descendants (Element t a cs)"
  by (simp add: descendants_def)













section \<open>The formatter\<close>

lemma digest_header_split:
  "digest_header name compiled n =
     (''# '' @ name @ '' '' @ [CHR 0xE2, CHR 0x80, CHR 0x94] @ '' '' @ show_nat n
        @ '' Most Recent Posts'')
     @ [CHR 0x0A] @ ''Compiled: '' @ compiled @ [CHR 0x0A]
     @ ([CHR 0x0A]
        @ ''Full content of each post is included below. Use this to produce a weekly digest''
        @ [CHR 0x0A]
        @ ''with combined top stories, must-read links, and a reference back to each source URL.'')"
  by (simp add: digest_header_def)

lemma format_with_split:
  assumes "digest_sections posts = Some sections"
  shows "\<exists>pre suf. \<forall>compiled.
     format_with name compiled posts
       = Inr (pre @ [CHR 0x0A] @ ''Compiled: '' @ compiled @ [CHR 0x0A] @ suf)"
proof -
  let ?pre = "''# '' @ name @ '' '' @ [CHR 0xE2, CHR 0x80, CHR 0x94] @ '' ''
      @ show_nat (length posts) @ '' Most Recent Posts''"
  let ?suf = "([CHR 0x0A]
        @ ''Full content of each post is included below. Use this to produce a weekly digest''
        @ [CHR 0x0A]
        @ ''with combined top stories, must-read links, and a reference back to each source URL.'')
      @ divider @ join divider sections"
  have "\<forall>compiled. format_with name compiled posts
       = Inr (?pre @ [CHR 0x0A] @ ''Compiled: '' @ compiled @ [CHR 0x0A] @ ?suf)"
    unfolding format_with_def assms digest_header_split by simp
  then show ?thesis by blast
qed

text \<open>
  The formatter asks its conditions of the values as they are and converts them only
  inside its template literals.  A subtitle and an image that are empty arrays are truthy
  and print as the empty string, so their lines appear, empty.
\<close>

lemma empty_array_lines_are_printed:
  "digest_section 1 0
     \<lparr>title = JStr ''T'', date = ''D'', url = ''U'', slug = ''s'', author = JStr ''A'',
      subtitle = JArr [], content_markdown = ''Body'', external_links = [],
      featured_image = Some (JArr [])\<rparr>
   = Some (''## [Post 1/1] T'' @ [CHR 0x0A]
           @ ''**Date:** D  |  **Author:** A'' @ [CHR 0x0A]
           @ ''**Source:** <U>'' @ [CHR 0x0A]
           @ ''**Summary:** '' @ [CHR 0x0A, CHR 0x0A]
           @ ''![Featured Image]()'' @ [CHR 0x0A, CHR 0x0A, CHR 0x0A]
           @ ''Body'')"
  by code_simp

text \<open>
  C9.  The formatter reads nothing but the posts and the date.  When every post can be
  printed, the document is the same for the same posts apart from the line
  \<open>Compiled: \<dots>\<close> that carries the date: what stands before and after that line does not
  depend on the date.  The sections are as many as the posts, the section at each index is
  made from the post at that index, and they are joined in that order by the divider.
  When a post cannot be printed, the formatter throws the same error whatever the date, and
  there is no document.
\<close>

theorem digest_fixed_apart_from_date:
  "(list_all printable posts \<longrightarrow>
      (\<exists>pre suf. \<forall>compiled.
         formatDigest compiled posts
           = Inr (pre @ [CHR 0x0A] @ ''Compiled: '' @ compiled @ [CHR 0x0A] @ suf))
      \<and> (\<exists>pre suf. \<forall>compiled.
         formatCodeDigest compiled posts
           = Inr (pre @ [CHR 0x0A] @ ''Compiled: '' @ compiled @ [CHR 0x0A] @ suf)))
   \<and> (\<not> list_all printable posts \<longrightarrow>
      (\<forall>compiled. formatDigest compiled posts = Inl TYPE_ERROR
         \<and> formatCodeDigest compiled posts = Inl TYPE_ERROR))
   \<and> (digest_sections posts = None \<longleftrightarrow> \<not> list_all printable posts)
   \<and> (digest_sections posts = Some sections \<longrightarrow>
        formatDigest compiled posts =
          Inr (digest_header ''Superhuman AI Newsletter'' compiled (length posts) @ divider
               @ join divider sections)
        \<and> formatCodeDigest compiled posts =
          Inr (digest_header ''The Code Newsletter'' compiled (length posts) @ divider
               @ join divider sections)
        \<and> length sections = length posts
        \<and> (\<forall>i<length posts.
              digest_section (length posts) i (posts ! i) = Some (sections ! i)
              \<and> sections ! i = section_text (length posts) i (posts ! i)))"
proof (intro conjI impI)
  assume p: "list_all printable posts"
  then obtain sections where s: "digest_sections posts = Some sections"
    by (simp add: digest_sections_eq)
  show "\<exists>pre suf. \<forall>compiled.
         formatDigest compiled posts
           = Inr (pre @ [CHR 0x0A] @ ''Compiled: '' @ compiled @ [CHR 0x0A] @ suf)"
    unfolding formatDigest_def by (rule format_with_split[OF s])
  show "\<exists>pre suf. \<forall>compiled.
         formatCodeDigest compiled posts
           = Inr (pre @ [CHR 0x0A] @ ''Compiled: '' @ compiled @ [CHR 0x0A] @ suf)"
    unfolding formatCodeDigest_def by (rule format_with_split[OF s])
next
  assume "\<not> list_all printable posts"
  then show "\<forall>compiled. formatDigest compiled posts = Inl TYPE_ERROR
         \<and> formatCodeDigest compiled posts = Inl TYPE_ERROR"
    by (simp add: formatDigest_def formatCodeDigest_def format_with_eq)
next
  show "digest_sections posts = None \<longleftrightarrow> \<not> list_all printable posts"
    by (simp add: digest_sections_eq)
next
  assume s: "digest_sections posts = Some sections"
  show "formatDigest compiled posts =
          Inr (digest_header ''Superhuman AI Newsletter'' compiled (length posts) @ divider
               @ join divider sections)"
    by (simp add: formatDigest_def format_with_def s)
  show "formatCodeDigest compiled posts =
          Inr (digest_header ''The Code Newsletter'' compiled (length posts) @ divider
               @ join divider sections)"
    by (simp add: formatCodeDigest_def format_with_def s)
  from s have p: "list_all printable posts"
    and e: "sections = map (\<lambda>i. section_text (length posts) i (posts ! i)) [0..<length posts]"
    by (auto simp: digest_sections_eq split: if_splits)
  from e show "length sections = length posts" by simp
  show "\<forall>i<length posts.
              digest_section (length posts) i (posts ! i) = Some (sections ! i)
              \<and> sections ! i = section_text (length posts) i (posts ! i)"
  proof (intro allI impI)
    fix i assume i: "i < length posts"
    with p have "printable (posts ! i)" by (simp add: list_all_length)
    then have "digest_section (length posts) i (posts ! i)
        = Some (section_text (length posts) i (posts ! i))" by (rule digest_section_text)
    moreover from e i have "sections ! i = section_text (length posts) i (posts ! i)" by simp
    ultimately show "digest_section (length posts) i (posts ! i) = Some (sections ! i)
              \<and> sections ! i = section_text (length posts) i (posts ! i)" by simp
  qed
qed

text \<open>
  The claim on two posts that are not in alphabetical order: the first section is the one
  of \<open>Zebra\<close>, the second the one of \<open>Apple\<close>, and the document does not depend on the
  date but in its second line.
\<close>

theorem digest_fixed_apart_from_date_witness:
  "list_all printable two_posts \<and> (1::nat) < length two_posts
   \<and> (\<exists>sections. digest_sections two_posts = Some sections
        \<and> length sections = 2
        \<and> digest_section 2 0 (two_posts ! 0) = Some (sections ! 0)
        \<and> digest_section 2 1 (two_posts ! 1) = Some (sections ! 1)
        \<and> sections ! 0 =
            ''## [Post 1/2] Zebra'' @ [CHR 0x0A]
            @ ''**Date:** February 21, 2026  |  **Author:** Zain Kahn'' @ [CHR 0x0A]
            @ ''**Source:** <https://www.superhuman.ai/p/zebra>'' @ [CHR 0x0A]
            @ ''**Summary:** Stripes'' @ [CHR 0x0A, CHR 0x0A]
            @ ''![Featured Image](https://img.example/z.png)'' @ [CHR 0x0A, CHR 0x0A, CHR 0x0A]
            @ ''Body Z'' @ [CHR 0x0A, CHR 0x0A]
            @ ''**Links referenced in this post:**'' @ [CHR 0x0A]
            @ ''- [Read more](https://external.example/story)''
        \<and> sections ! 1 =
            ''## [Post 2/2] Apple'' @ [CHR 0x0A]
            @ ''**Date:** February 20, 2026  |  **Author:** Zain Kahn'' @ [CHR 0x0A]
            @ ''**Source:** <https://www.superhuman.ai/p/apple>'' @ [CHR 0x0A, CHR 0x0A]
            @ ''Body A''
        \<and> (\<forall>compiled. formatDigest compiled two_posts =
              Inr (digest_header ''Superhuman AI Newsletter'' compiled 2 @ divider
                   @ sections ! 0 @ divider @ sections ! 1)))
   \<and> (\<exists>pre suf. \<forall>compiled.
         formatDigest compiled two_posts
           = Inr (pre @ [CHR 0x0A] @ ''Compiled: '' @ compiled @ [CHR 0x0A] @ suf))"
proof -
  have n: "length two_posts = 2" by (simp add: two_posts_def)
  have p: "list_all printable two_posts" by code_simp
  note th = digest_fixed_apart_from_date [where posts = two_posts]
  from th [THEN conjunct2, THEN conjunct2, THEN conjunct1] p
  have "digest_sections two_posts \<noteq> None" by simp
  then obtain sections where s: "digest_sections two_posts = Some sections" by auto
  note ts = digest_fixed_apart_from_date [where posts = two_posts and sections = sections]
  from ts s n have l: "length sections = 2" by simp
  from ts s n have s0: "digest_section 2 0 (two_posts ! 0) = Some (sections ! 0)"
    and s1: "digest_section 2 1 (two_posts ! 1) = Some (sections ! 1)"
    and x0: "sections ! 0 = section_text 2 0 (two_posts ! 0)"
    and x1: "sections ! 1 = section_text 2 1 (two_posts ! 1)"
    by simp_all
  have e0: "section_text 2 0 (two_posts ! 0) =
            ''## [Post 1/2] Zebra'' @ [CHR 0x0A]
            @ ''**Date:** February 21, 2026  |  **Author:** Zain Kahn'' @ [CHR 0x0A]
            @ ''**Source:** <https://www.superhuman.ai/p/zebra>'' @ [CHR 0x0A]
            @ ''**Summary:** Stripes'' @ [CHR 0x0A, CHR 0x0A]
            @ ''![Featured Image](https://img.example/z.png)'' @ [CHR 0x0A, CHR 0x0A, CHR 0x0A]
            @ ''Body Z'' @ [CHR 0x0A, CHR 0x0A]
            @ ''**Links referenced in this post:**'' @ [CHR 0x0A]
            @ ''- [Read more](https://external.example/story)''" by code_simp
  have e1: "section_text 2 1 (two_posts ! 1) =
            ''## [Post 2/2] Apple'' @ [CHR 0x0A]
            @ ''**Date:** February 20, 2026  |  **Author:** Zain Kahn'' @ [CHR 0x0A]
            @ ''**Source:** <https://www.superhuman.ai/p/apple>'' @ [CHR 0x0A, CHR 0x0A]
            @ ''Body A''" by code_simp
  have j: "join divider sections = sections ! 0 @ divider @ sections ! 1"
  proof -
    from l obtain a b where "sections = [a, b]"
      by (cases sections; cases "tl sections"; cases "tl (tl sections)") auto
    then show ?thesis by simp
  qed
  have f: "\<forall>compiled. formatDigest compiled two_posts =
              Inr (digest_header ''Superhuman AI Newsletter'' compiled 2 @ divider
                   @ sections ! 0 @ divider @ sections ! 1)"
  proof
    fix compiled
    from digest_fixed_apart_from_date
      [where posts = two_posts and sections = sections and compiled = compiled] s n j
    show "formatDigest compiled two_posts =
              Inr (digest_header ''Superhuman AI Newsletter'' compiled 2 @ divider
                   @ sections ! 0 @ divider @ sections ! 1)" by simp
  qed
  from th [THEN conjunct1] p have g: "\<exists>pre suf. \<forall>compiled.
         formatDigest compiled two_posts
           = Inr (pre @ [CHR 0x0A] @ ''Compiled: '' @ compiled @ [CHR 0x0A] @ suf)" by blast
  have A: "\<exists>sections. digest_sections two_posts = Some sections
        \<and> length sections = 2
        \<and> digest_section 2 0 (two_posts ! 0) = Some (sections ! 0)
        \<and> digest_section 2 1 (two_posts ! 1) = Some (sections ! 1)
        \<and> sections ! 0 =
            ''## [Post 1/2] Zebra'' @ [CHR 0x0A]
            @ ''**Date:** February 21, 2026  |  **Author:** Zain Kahn'' @ [CHR 0x0A]
            @ ''**Source:** <https://www.superhuman.ai/p/zebra>'' @ [CHR 0x0A]
            @ ''**Summary:** Stripes'' @ [CHR 0x0A, CHR 0x0A]
            @ ''![Featured Image](https://img.example/z.png)'' @ [CHR 0x0A, CHR 0x0A, CHR 0x0A]
            @ ''Body Z'' @ [CHR 0x0A, CHR 0x0A]
            @ ''**Links referenced in this post:**'' @ [CHR 0x0A]
            @ ''- [Read more](https://external.example/story)''
        \<and> sections ! 1 =
            ''## [Post 2/2] Apple'' @ [CHR 0x0A]
            @ ''**Date:** February 20, 2026  |  **Author:** Zain Kahn'' @ [CHR 0x0A]
            @ ''**Source:** <https://www.superhuman.ai/p/apple>'' @ [CHR 0x0A, CHR 0x0A]
            @ ''Body A''
        \<and> (\<forall>compiled. formatDigest compiled two_posts =
              Inr (digest_header ''Superhuman AI Newsletter'' compiled 2 @ divider
                   @ sections ! 0 @ divider @ sections ! 1))"
    using s l s0 s1 x0 x1 e0 e1 f by (intro exI[of _ sections]) (simp only: simp_thms)
  have m: "(1::nat) < length two_posts" using n by simp
  show ?thesis using p m A g by blast
qed

section \<open>Sponsor elements\<close>
















end
